theory Spec2Isabelle
  imports Complex_Main
begin

section \<open>Strings\<close>

text \<open>
  JavaScript strings are modelled as lists of 8-bit characters (code units below 256).
  \<open>is_space\<close> is the set of characters that \<open>String.prototype.trim\<close> strips and that
  \<open>\s\<close> matches, restricted to that range: TAB, LF, VT, FF, CR, SPACE and NBSP.
\<close>

definition is_space :: "char \<Rightarrow> bool" where
  "is_space c = (c \<in> set [CHR 0x09, CHR 0x0A, CHR 0x0B, CHR 0x0C, CHR 0x0D, CHR 0x20, CHR 0xA0])"

definition trim :: "string \<Rightarrow> string" where
  "trim s = rev (dropWhile is_space (rev (dropWhile is_space s)))"

text \<open>\<open>s.split(c)\<close> for a one-character separator: \<open>''''.split(c)\<close> is \<open>['''']\<close>.\<close>

fun split_on :: "char \<Rightarrow> string \<Rightarrow> string list" where
  "split_on c [] = [[]]"
| "split_on c (x # xs) =
     (if x = c then [] # split_on c xs
      else (case split_on c xs of [] \<Rightarrow> [[x]] | p # ps \<Rightarrow> (x # p) # ps))"

text \<open>\<open>xs.join(sep)\<close>.\<close>

fun join :: "string \<Rightarrow> string list \<Rightarrow> string" where
  "join sep [] = []"
| "join sep [x] = x"
| "join sep (x # y # ys) = x @ sep @ join sep (y # ys)"

section \<open>Regular expressions\<close>

text \<open>
  The fragment of regular expressions that \<open>PROFILE_KEY_REGEX\<close> uses. \<open>rmatch r s\<close>
  lists the remainders of \<open>s\<close> after every prefix of \<open>s\<close> that \<open>r\<close> matches; an
  iteration of a starred group that consumes nothing is not repeated.
\<close>

datatype rexp =
    Chr char
  | NotIn "char list"
  | Seq rexp rexp
  | Opt rexp
  | Star rexp
  | Plus rexp

fun iter :: "nat \<Rightarrow> (string \<Rightarrow> string list) \<Rightarrow> string \<Rightarrow> string list" where
  "iter 0 f s = [s]"
| "iter (Suc n) f s = s # concat (map (iter n f) (filter (\<lambda>t. length t < length s) (f s)))"

primrec rmatch :: "rexp \<Rightarrow> string \<Rightarrow> string list" where
  "rmatch (Chr c) s = (case s of [] \<Rightarrow> [] | x # xs \<Rightarrow> if x = c then [xs] else [])"
| "rmatch (NotIn cs) s = (case s of [] \<Rightarrow> [] | x # xs \<Rightarrow> if x \<notin> set cs then [xs] else [])"
| "rmatch (Seq r1 r2) s = concat (map (rmatch r2) (rmatch r1 s))"
| "rmatch (Opt r) s = s # rmatch r s"
| "rmatch (Star r) s = iter (length s) (rmatch r) s"
| "rmatch (Plus r) s = concat (map (\<lambda>t. iter (length t) (rmatch r) t) (rmatch r s))"

text \<open>\<open>/^r$/.test(s)\<close>: the whole of \<open>s\<close> is matched.\<close>

definition regex_test :: "rexp \<Rightarrow> string \<Rightarrow> bool" where
  "regex_test r s = ([] \<in> set (rmatch r s))"

text \<open>\<open>/^(\/?[^\/:]+)+(\/[^\/:]+)*(:[^\/:]+)?$/\<close>\<close>

definition PROFILE_KEY_REGEX :: rexp where
  "PROFILE_KEY_REGEX =
     Seq (Plus (Seq (Opt (Chr CHR ''/'')) (Plus (NotIn ''/:''))))
       (Seq (Star (Seq (Chr CHR ''/'') (Plus (NotIn ''/:''))))
            (Opt (Seq (Chr CHR '':'') (Plus (NotIn ''/:'')))))"

section \<open>ProfileKey\<close>

datatype error = TypeError

record profile_key =
  k_root :: bool
  k_profiles :: "string list"
  k_duration :: "string option"

text \<open>
  The constructor \<open>ProfileKey(key)\<close>. Reading \<open>this.profiles[this.profiles.length - 1]\<close>
  of an empty list gives \<open>undefined\<close>, and \<open>undefined.indexOf\<close> raises a TypeError; so
  does \<open>parts[1].trim()\<close> when the split has a single part (which cannot happen after a
  colon was found).
\<close>

definition ProfileKey :: "string \<Rightarrow> error + profile_key" where
  "ProfileKey key =
     (let root = (case key of [] \<Rightarrow> False | c # _ \<Rightarrow> c = CHR ''/'');
          profiles = filter (\<lambda>p. p \<noteq> []) (map trim (split_on CHR ''/'' key))
      in if profiles = [] then Inl TypeError
         else if CHR '':'' \<in> set (last profiles) then
           (case split_on CHR '':'' (last profiles) of
              p0 # p1 # _ \<Rightarrow>
                Inr \<lparr>k_root = root, k_profiles = butlast profiles @ [trim p0],
                     k_duration = Some (trim p1)\<rparr>
            | _ \<Rightarrow> Inl TypeError)
         else Inr \<lparr>k_root = root, k_profiles = profiles, k_duration = None\<rparr>)"

text \<open>
  \<open>ProfileKey.prototype.toString\<close>; an empty duration is falsy. (The result is cached
  in \<open>this.str\<close>, which changes nothing since the key is never modified.)
\<close>

definition toString :: "profile_key \<Rightarrow> string" where
  "toString k =
     (if k_root k then ''/'' else '''') @ join ''/'' (k_profiles k) @
     (case k_duration k of None \<Rightarrow> '''' | Some d \<Rightarrow> if d = [] then '''' else '':'' @ d)"

section \<open>Values, objects and timestamps\<close>

text \<open>
  Attribute values of the payloads attached to calls are JavaScript primitives; numbers
  are idealised as rationals.
\<close>

datatype jsval = VUndefined | VNull | VBool bool | VNum rat | VStr string

fun truthy :: "jsval \<Rightarrow> bool" where
  "truthy VUndefined = False"
| "truthy VNull = False"
| "truthy (VBool b) = b"
| "truthy (VNum n) = (n \<noteq> 0)"
| "truthy (VStr s) = (s \<noteq> [])"

definition js_or :: "jsval \<Rightarrow> jsval \<Rightarrow> jsval" where
  "js_or a b = (if truthy a then a else b)"

text \<open>
  An object used as a dictionary is the list of its own enumerable properties in
  enumeration order, taken to be insertion order. \<open>get\<close> reads a property that
  \<open>Object.prototype\<close> does not define.
\<close>

type_synonym jsobject = "(string \<times> jsval) list"

definition get :: "jsobject \<Rightarrow> string \<Rightarrow> jsval" where
  "get obj k = (case map_of obj k of None \<Rightarrow> VUndefined | Some v \<Rightarrow> v)"

text \<open>\<open>obj[k] = v\<close>\<close>

fun put :: "'k \<Rightarrow> 'v \<Rightarrow> ('k \<times> 'v) list \<Rightarrow> ('k \<times> 'v) list" where
  "put k v [] = [(k, v)]"
| "put k v (p # ps) = (if fst p = k then (k, v) # ps else p # put k v ps)"

text \<open>
  The properties every object inherits from \<open>Object.prototype\<close> (ECMAScript 5.1,
  15.2.4). Reading one of them from an object that has no own property of that name
  yields a function, and \<open>k in obj\<close> holds for them.
\<close>

definition Object_prototype :: "string list" where
  "Object_prototype = [''constructor'', ''toString'', ''toLocaleString'', ''valueOf'',
     ''hasOwnProperty'', ''isPrototypeOf'', ''propertyIsEnumerable'']"

definition has_in :: "string \<Rightarrow> (string \<times> 'v) list \<Rightarrow> bool" where
  "has_in k obj = (k \<in> fst ` set obj \<or> k \<in> set Object_prototype)"

text \<open>
  \<open>Y.mix(to, from)\<close> of the YUI library: every own property of \<open>from\<close> whose name is
  not \<open>in to\<close> is copied. \<open>Y.mix(to, from, true, null, 0, true)\<close> overwrites; its
  recursive merge only applies to object-valued properties, which payloads of
  primitives do not have. A missing \<open>from\<close> leaves \<open>to\<close> as it is.
\<close>

definition mix :: "(string \<times> 'v) list \<Rightarrow> (string \<times> 'v) list \<Rightarrow> (string \<times> 'v) list" where
  "mix to from = fold (\<lambda>(k, v) obj. if has_in k obj then obj else obj @ [(k, v)]) from to"

definition mix_overwrite :: "jsobject \<Rightarrow> jsobject option \<Rightarrow> jsobject" where
  "mix_overwrite to from =
     (case from of None \<Rightarrow> to | Some f \<Rightarrow> fold (\<lambda>(k, v) obj. put k v obj) f to)"

text \<open>
  A reading of \<open>Waterfall._now()\<close>: a number of milliseconds in a browser, the pair
  \<open>[seconds, nanoseconds]\<close> of \<open>process.hrtime\<close> otherwise. A time field that is
  \<open>undefined\<close> is \<open>None\<close>. The number 0 is falsy, an array is not.
\<close>

datatype rawtime = Ms rat | HR int int

fun truthy_time :: "rawtime option \<Rightarrow> bool" where
  "truthy_time None = False"
| "truthy_time (Some (Ms t)) = (t \<noteq> 0)"
| "truthy_time (Some (HR s n)) = True"

definition time_or :: "rawtime option \<Rightarrow> rawtime option \<Rightarrow> rawtime option" where
  "time_or a b = (if truthy_time a then a else b)"

section \<open>Profile\<close>

record dur =
  d_startTime :: "rawtime option"
  d_endTime :: "rawtime option"

text \<open>
  The fields of a \<open>Profile\<close> object other than \<open>children\<close>. \<open>p_duration\<close> is the
  reference \<open>this.duration\<close> to one of the objects in \<open>this.durations\<close>, kept as its
  label (no entry of \<open>durations\<close> is ever replaced). \<open>p_profile\<close> is the reference
  \<open>this.profile\<close> to the deepest node of the chain below this node, kept as the list
  of child ids that lead to it; only the node that was constructed without a
  \<open>root\<close> argument has it.
\<close>

record pinfo =
  p_profileKey :: profile_key
  p_id :: string
  p_type :: jsval
  p_durations :: "(string \<times> dur) list option"
  p_duration :: "string option"
  p_data :: jsobject
  p_startTime :: "rawtime option"
  p_endTime :: "rawtime option"
  p_closed :: bool
  p_profile :: "string list option"

datatype profile = Profile (info: pinfo) (children: "(string \<times> profile list) list")

text \<open>
  \<open>new Profile(profileKey, root)\<close>; \<open>is_top\<close> says that no \<open>root\<close> was passed. The keys
  handed to nested nodes are plain objects without a \<open>root\<close> property. A key without
  segments, which no caller constructs, would leave \<open>id\<close> undefined (falsy, as the
  empty string is).
\<close>

definition init_info :: "bool \<Rightarrow> profile_key \<Rightarrow> pinfo" where
  "init_info is_top k =
     (let ps = k_profiles k;
          labelled = (case k_duration k of None \<Rightarrow> False | Some l \<Rightarrow> l \<noteq> [])
      in \<lparr>p_profileKey = k,
          p_id = (case ps of [] \<Rightarrow> [] | x # _ \<Rightarrow> x),
          p_type = (case ps of [] \<Rightarrow> VUndefined | x # _ \<Rightarrow> VStr x),
          p_durations = (if labelled
             then Some [(the (k_duration k), \<lparr>d_startTime = None, d_endTime = None\<rparr>)]
             else None),
          p_duration = (if labelled then k_duration k else None),
          p_data = [],
          p_startTime = None,
          p_endTime = None,
          p_closed = False,
          p_profile = (if is_top \<and> ps \<noteq> [] then Some (tl ps) else None)\<rparr>)"

fun chain :: "bool \<Rightarrow> bool \<Rightarrow> string list \<Rightarrow> string option \<Rightarrow> profile" where
  "chain is_top r (x # y # rest) d =
     Profile (init_info is_top \<lparr>k_root = r, k_profiles = x # y # rest, k_duration = d\<rparr>)
       [(y, [chain False False (y # rest) d])]"
| "chain is_top r ps d =
     Profile (init_info is_top \<lparr>k_root = r, k_profiles = ps, k_duration = d\<rparr>) []"

definition new_Profile :: "profile_key \<Rightarrow> profile" where
  "new_Profile k = chain True (k_root k) (k_profiles k) (k_duration k)"

text \<open>
  Following a reference that is kept as a path: \<open>upd_at path f p\<close> applies \<open>f\<close> to the
  node that \<open>path\<close> leads to from \<open>p\<close>, through the first profile of each child list
  (where the constructor put the chain), and \<open>get_at\<close> reads that node. A path that
  leads nowhere would mean the reference is \<open>undefined\<close>.
\<close>

fun upd_at :: "string list \<Rightarrow> (profile \<Rightarrow> error + profile) \<Rightarrow> profile \<Rightarrow> error + profile" where
  "upd_at [] f p = f p"
| "upd_at (k # ks) f p =
     (case map_of (children p) k of
        Some (c # cs) \<Rightarrow>
          (case upd_at ks f c of
             Inl e \<Rightarrow> Inl e
           | Inr c' \<Rightarrow> Inr (Profile (info p) (put k (c' # cs) (children p))))
      | _ \<Rightarrow> Inl TypeError)"

fun get_at :: "string list \<Rightarrow> profile \<Rightarrow> profile option" where
  "get_at [] p = Some p"
| "get_at (k # ks) p =
     (case map_of (children p) k of Some (c # cs) \<Rightarrow> get_at ks c | _ \<Rightarrow> None)"

record set_data =
  s_startTime :: "rawtime option"
  s_endTime :: "rawtime option"
  s_data :: "jsobject option"

text \<open>The assignments of \<open>Profile.prototype.set\<close> to the node \<open>this.profile\<close>.\<close>

definition set_info :: "set_data \<Rightarrow> pinfo \<Rightarrow> pinfo" where
  "set_info sd i =
     (let i' = (case p_duration i of
                  Some l \<Rightarrow>
                    i\<lparr>p_durations := map_option (map (\<lambda>(k, d).
                        if k = l
                        then (k, d\<lparr>d_startTime := time_or (d_startTime d) (s_startTime sd),
                                   d_endTime := time_or (d_endTime d) (s_endTime sd)\<rparr>)
                        else (k, d))) (p_durations i)\<rparr>
                | None \<Rightarrow>
                    i\<lparr>p_startTime := time_or (p_startTime i) (s_startTime sd),
                      p_endTime := time_or (p_endTime i) (s_endTime sd)\<rparr>)
      in i'\<lparr>p_data := mix_overwrite (p_data i') (s_data sd)\<rparr>)"

text \<open>\<open>Profile.prototype.set\<close>, called on a node of the stack.\<close>

definition Profile_set :: "profile \<Rightarrow> set_data \<Rightarrow> error + profile" where
  "Profile_set this sd =
     (case p_profile (info this) of
        None \<Rightarrow> Inl TypeError
      | Some path \<Rightarrow>
          (case upd_at path (\<lambda>p. Inr (Profile (set_info sd (info p)) (children p))) this of
             Inl e \<Rightarrow> Inl e
           | Inr this' \<Rightarrow>
               (case get_at path this' of
                  None \<Rightarrow> Inl TypeError
                | Some deepest \<Rightarrow>
                    Inr (Profile ((info this')\<lparr>p_type :=
                           js_or (get (p_data (info deepest)) ''type'') (p_type (info this'))\<rparr>)
                         (children this')))))"

fun foldE :: "('a \<Rightarrow> 's \<Rightarrow> error + 's) \<Rightarrow> 'a list \<Rightarrow> 's \<Rightarrow> error + 's" where
  "foldE f [] s = Inr s"
| "foldE f (x # xs) s = (case f x s of Inl e \<Rightarrow> Inl e | Inr s' \<Rightarrow> foldE f xs s')"

lemma foldE_cong [fundef_cong]:
  "xs = ys \<Longrightarrow> s = t \<Longrightarrow> (\<And>x u. x \<in> set ys \<Longrightarrow> f x u = g x u) \<Longrightarrow> foldE f xs s = foldE g ys t"
  by (induction ys arbitrary: xs s t) (auto split: sum.splits)

lemma size_child_less:
  "(a, b) \<in> set ch \<Longrightarrow> c \<in> set b \<Longrightarrow> size c < size (Profile i ch)"
proof (induction ch)
  case Nil
  then show ?case by simp
next
  case (Cons x ch)
  show ?case
  proof (cases "x = (a, b)")
    case True
    have "size c \<le> size_list size b"
      using Cons.prems(2) by (simp add: size_list_estimation')
    then show ?thesis using True by simp
  next
    case False
    then have "size c < size (Profile i ch)" using Cons by simp
    then show ?thesis by simp
  qed
qed

text \<open>
  The body of \<open>Profile.prototype.add\<close> once \<open>parentProfile\<close> is known. A child id that
  \<open>Object.prototype\<close> defines and the parent does not own reads as a function, not as
  a list of profiles: its last element is \<open>undefined\<close>, and reading a property of it
  raises a TypeError.
\<close>

function add :: "profile \<Rightarrow> profile \<Rightarrow> error + profile" where
  "add prof parentProfile =
     (let pid = p_id (info prof) in
      if pid = [] then
        Inr (Profile ((info parentProfile)\<lparr>p_durations :=
               Some (mix (case p_durations (info parentProfile) of None \<Rightarrow> [] | Some ds \<Rightarrow> ds)
                         (case p_durations (info prof) of None \<Rightarrow> [] | Some ds \<Rightarrow> ds))\<rparr>)
             (children parentProfile))
      else
        (case map_of (children parentProfile) pid of
           None \<Rightarrow>
             if pid \<in> set Object_prototype then Inl TypeError
             else Inr (Profile (info parentProfile) (children parentProfile @ [(pid, [prof])]))
         | Some profileArray \<Rightarrow>
             if profileArray = [] then Inl TypeError
             else
               (let lastProfile = last profileArray in
                if p_durations (info prof) \<noteq> None then
                  Inr (Profile (info parentProfile)
                    (put pid (butlast profileArray @
                       [Profile ((info lastProfile)\<lparr>p_durations :=
                          Some (mix (case p_durations (info lastProfile) of None \<Rightarrow> [] | Some ds \<Rightarrow> ds)
                                    (the (p_durations (info prof))))\<rparr>)
                          (children lastProfile)])
                     (children parentProfile)))
                else if p_startTime (info lastProfile) = None \<and> children prof \<noteq> [] then
                  (case foldE add (concat (map snd (children prof))) lastProfile of
                     Inl e \<Rightarrow> Inl e
                   | Inr lastProfile' \<Rightarrow>
                       Inr (Profile (info parentProfile)
                         (put pid (butlast profileArray @ [lastProfile']) (children parentProfile))))
                else if p_startTime (info lastProfile) = None then
                  Inr (Profile (info parentProfile)
                    (put pid (butlast profileArray @
                       [Profile ((info lastProfile)\<lparr>
                          p_startTime := p_startTime (info prof),
                          p_endTime := p_endTime (info prof),
                          p_type := js_or (get (p_data (info prof)) ''type'') (p_type (info lastProfile)),
                          p_data := mix_overwrite (p_data (info lastProfile)) (Some (p_data (info prof)))\<rparr>)
                          (children lastProfile)])
                     (children parentProfile)))
                else
                  Inr (Profile (info parentProfile)
                    (put pid (profileArray @ [prof]) (children parentProfile))))))"
  by pat_completeness auto
termination
proof (relation "measure (\<lambda>(prof, parentProfile). size prof)")
  show "wf (measure (\<lambda>(prof, parentProfile). size prof))" by simp
next
  fix prof parentProfile :: profile and c lastProfile
  assume "c \<in> set (concat (map snd (children prof)))"
  then obtain a b where "(a, b) \<in> set (children prof)" "c \<in> set b" by auto
  then have "size c < size (Profile (info prof) (children prof))"
    by (rule size_child_less)
  then show "((c, lastProfile), (prof, parentProfile)) \<in> measure (\<lambda>(prof, parentProfile). size prof)"
    by simp
qed

text \<open>\<open>this.add(profile)\<close>: \<open>parentProfile\<close> defaults to \<open>this.profile\<close>.\<close>

definition Profile_add :: "profile \<Rightarrow> profile \<Rightarrow> error + profile" where
  "Profile_add this prof =
     (case p_profile (info this) of
        None \<Rightarrow> Inl TypeError
      | Some path \<Rightarrow> upd_at path (add prof) this)"

declare add.simps [simp del]

section \<open>The call log and its reconciliation\<close>

text \<open>
  One entry of \<open>this._calls\<close>: the raw key (or the event's name), the time and the
  payload. A key that was not given reads as the empty string, which is what
  \<open>args.profileKey || ''\<close> makes of it.
\<close>

datatype call =
    Start string rawtime "jsobject option"
  | End string rawtime "jsobject option"
  | Event string rawtime "jsobject option"

text \<open>
  The state \<open>_processCalls\<close> works on: the local \<open>stack\<close> and the two fields of the
  instance that the loop writes. An event is kept as its name, time and payload (a
  payload is assumed not to have properties \<open>type\<close> and \<open>time\<close> of its own, which
  \<open>Y.mix\<close> would not overwrite).
\<close>

record pstate =
  stack :: "profile list"
  events :: "(string \<times> rawtime \<times> jsobject option) list"
  absoluteStartTime :: "rawtime option"

text \<open>The line that \<open>this._error(message, profileKeyStr)\<close> hands to \<open>Y.log\<close>.\<close>

definition error_line :: "string \<Rightarrow> string \<Rightarrow> string" where
  "error_line message profileKeyStr =
     ''Error when profiling '' @ [CHR 0x27] @ profileKeyStr @ [CHR 0x27] @ '': '' @ message"

definition valid_key :: "string \<Rightarrow> bool" where
  "valid_key k = (k \<noteq> [] \<and> regex_test PROFILE_KEY_REGEX k)"

text \<open>
  \<open>for (i = stack.length - 1; i > 0; i--)\<close>: the topmost open profile, the root at index
  0 excluded, whose key prints as \<open>str\<close>.
\<close>

fun find_from :: "nat \<Rightarrow> profile list \<Rightarrow> string \<Rightarrow> nat option" where
  "find_from 0 st str = None"
| "find_from (Suc i) st str =
     (if toString (p_profileKey (info (st ! Suc i))) = str then Some (Suc i)
      else find_from i st str)"

definition find_open :: "profile list \<Rightarrow> string \<Rightarrow> nat option" where
  "find_open st str = find_from (length st - 1) st str"

text \<open>\<open>stack.splice(i, 1)\<close>\<close>

definition splice1 :: "nat \<Rightarrow> 'a list \<Rightarrow> 'a list" where
  "splice1 i xs = take i xs @ drop (Suc i) xs"

definition set_closed :: "profile \<Rightarrow> profile" where
  "set_closed p = Profile ((info p)\<lparr>p_closed := True\<rparr>) (children p)"

text \<open>The branch of the loop body for a start call with a parsed key.\<close>

definition process_start :: "profile_key \<Rightarrow> rawtime \<Rightarrow> jsobject option \<Rightarrow> pstate \<Rightarrow> error + pstate" where
  "process_start profileKey time data s =
     (case Profile_set (new_Profile profileKey)
             \<lparr>s_startTime = Some time, s_endTime = None, s_data = data\<rparr> of
        Inl e \<Rightarrow> Inl e
      | Inr p \<Rightarrow> Inr (s\<lparr>stack := stack s @ [p]\<rparr>))"

text \<open>
  The branch for an end call with a parsed key: the lines written to the log, and the
  new state or the exception. A rooted key takes \<open>stack[0]\<close> as the parent, any other
  key \<open>stack[i - 1]\<close>, both read after the splice.
\<close>

definition process_end :: "profile_key \<Rightarrow> rawtime \<Rightarrow> jsobject option \<Rightarrow> pstate \<Rightarrow> string list \<times> (error + pstate)" where
  "process_end profileKey time data s =
     (case find_open (stack s) (toString profileKey) of
        None \<Rightarrow> ([error_line ''Start was never called.'' (toString profileKey)], Inr s)
      | Some i \<Rightarrow>
          (case Profile_set (stack s ! i)
                  \<lparr>s_startTime = None, s_endTime = Some time, s_data = data\<rparr> of
             Inl e \<Rightarrow> ([], Inl e)
           | Inr p \<Rightarrow>
               (let st = splice1 i (stack s);
                    j = (if k_root profileKey then 0 else i - 1)
                in case Profile_add (st ! j) (set_closed p) of
                     Inl e \<Rightarrow> ([], Inl e)
                   | Inr parent \<Rightarrow> ([], Inr (s\<lparr>stack := st[j := parent]\<rparr>)))))"

text \<open>
  The body of the loop over \<open>this._calls\<close>: the lines logged, and the new state or the
  exception that leaves the loop. (The loop also stores the trimmed key back into the
  log entry, which nothing reads again.)
\<close>

definition process_call :: "call \<Rightarrow> pstate \<Rightarrow> string list \<times> (error + pstate)" where
  "process_call args s =
     (let s1 = s\<lparr>absoluteStartTime :=
                 (if absoluteStartTime s \<noteq> None then absoluteStartTime s
                  else (case args of End _ _ _ \<Rightarrow> None
                        | Start _ time _ \<Rightarrow> Some time
                        | Event _ time _ \<Rightarrow> Some time))\<rparr>
      in case args of
           Event name time data \<Rightarrow> ([], Inr (s1\<lparr>events := events s1 @ [(name, time, data)]\<rparr>))
         | Start key time data \<Rightarrow>
             (let k = trim key in
              if \<not> valid_key k then ([error_line ''Invalid profile.'' k], Inr s1)
              else (case ProfileKey k of
                      Inl e \<Rightarrow> ([], Inl e)
                    | Inr profileKey \<Rightarrow> ([], process_start profileKey time data s1)))
         | End key time data \<Rightarrow>
             (let k = trim key in
              if \<not> valid_key k then ([error_line ''Invalid profile.'' k], Inr s1)
              else (case ProfileKey k of
                      Inl e \<Rightarrow> ([], Inl e)
                    | Inr profileKey \<Rightarrow> process_end profileKey time data s1)))"

text \<open>\<open>Y.Array.each(this._calls, ...)\<close>, with the lines logged on the way.\<close>

fun run :: "call list \<Rightarrow> pstate \<Rightarrow> string list \<times> (error + pstate)" where
  "run [] s = ([], Inr s)"
| "run (args # rest) s =
     (case process_call args s of
        (l, Inl e) \<Rightarrow> (l, Inl e)
      | (l, Inr s') \<Rightarrow> (case run rest s' of (l', r) \<Rightarrow> (l @ l', r)))"

text \<open>
  The loop after the log is exhausted: every profile left on the stack above the root
  is reported unless it is closed, and its closed children are added to the root.
\<close>

fun sweep :: "profile list \<Rightarrow> profile \<Rightarrow> string list \<times> (error + profile)" where
  "sweep [] rootProfile = ([], Inr rootProfile)"
| "sweep (p # ps) rootProfile =
     (if p_closed (info p) then sweep ps rootProfile
      else
        (let l = [error_line ''End was never called.'' (toString (p_profileKey (info p)))] in
         case foldE (\<lambda>childProfile r.
                if p_closed (info childProfile) then Profile_add r childProfile else Inr r)
              (concat (map snd (children p))) rootProfile of
           Inl e \<Rightarrow> (l, Inl e)
         | Inr r \<Rightarrow> (case sweep ps r of (l', res) \<Rightarrow> (l @ l', res))))"

definition root_key :: profile_key where
  "root_key = \<lparr>k_root = False, k_profiles = [''root''], k_duration = None\<rparr>"

definition initial :: "(string \<times> rawtime \<times> jsobject option) list \<Rightarrow> rawtime option \<Rightarrow> pstate" where
  "initial evs t0 = \<lparr>stack = [new_Profile root_key], events = evs, absoluteStartTime = t0\<rparr>"

text \<open>
  \<open>_processCalls\<close> on an instance that has no \<open>_rootProfile\<close> yet: the lines logged,
  and the state of the loop with the root profile unless an exception was raised. The
  root profile is the bottom of the stack, which is never removed.
\<close>

definition processCalls :: "call list \<Rightarrow> pstate \<Rightarrow> string list \<times> (error + pstate \<times> profile)" where
  "processCalls calls s0 =
     (case run calls s0 of
        (l, Inl e) \<Rightarrow> (l, Inl e)
      | (l, Inr s) \<Rightarrow>
          (case stack s of
             [] \<Rightarrow> (l, Inl TypeError)
           | r # ps \<Rightarrow>
               (case sweep ps r of
                  (l', Inl e) \<Rightarrow> (l @ l', Inl e)
                | (l', Inr rootProfile) \<Rightarrow> (l @ l', Inr (s, rootProfile)))))"

section \<open>Rows\<close>

text \<open>
  A number as \<open>createRows\<close> computes with it: \<open>undefined\<close>, \<open>NaN\<close>, or a number
  (idealised as a rational). Arithmetic and \<open>Math.min\<close>/\<open>Math.max\<close> on anything
  but two numbers give \<open>NaN\<close>; a comparison with \<open>NaN\<close> or \<open>undefined\<close> is false.
\<close>

datatype jsnum = NUndef | NaN | Num rat

fun js_sub :: "jsnum \<Rightarrow> jsnum \<Rightarrow> jsnum" where
  "js_sub (Num a) (Num b) = Num (a - b)"
| "js_sub _ _ = NaN"

fun js_add :: "jsnum \<Rightarrow> jsnum \<Rightarrow> jsnum" where
  "js_add (Num a) (Num b) = Num (a + b)"
| "js_add _ _ = NaN"

fun js_min :: "jsnum \<Rightarrow> jsnum \<Rightarrow> jsnum" where
  "js_min (Num a) (Num b) = Num (min a b)"
| "js_min _ _ = NaN"

fun js_max :: "jsnum \<Rightarrow> jsnum \<Rightarrow> jsnum" where
  "js_max (Num a) (Num b) = Num (max a b)"
| "js_max _ _ = NaN"

fun js_lt :: "jsnum \<Rightarrow> jsnum \<Rightarrow> bool" where
  "js_lt (Num a) (Num b) = (a < b)"
| "js_lt _ _ = False"

text \<open>\<open>x || 0\<close>\<close>

fun or_zero :: "jsnum \<Rightarrow> rat" where
  "or_zero (Num a) = a"
| "or_zero _ = 0"

text \<open>
  \<open>Waterfall.prototype._normalize\<close>. In a browser the result is
  \<open>time - this.absoluteStartTime\<close>; elsewhere the two components are subtracted, and
  reading a component of an \<open>absoluteStartTime\<close> that is \<open>undefined\<close> raises a
  TypeError. Operands of the wrong shape give \<open>NaN\<close>.
\<close>

definition normalize :: "bool \<Rightarrow> rawtime option \<Rightarrow> rawtime option \<Rightarrow> error + jsnum" where
  "normalize isBrowser t0 time =
     (if \<not> truthy_time time then Inr NUndef
      else if isBrowser then
        (case (time, t0) of
           (Some (Ms t), Some (Ms a)) \<Rightarrow> Inr (Num (t - a))
         | _ \<Rightarrow> Inr NaN)
      else
        (case t0 of
           None \<Rightarrow> Inl TypeError
         | Some a \<Rightarrow>
             (case (time, a) of
                (Some (HR s n), HR s0 n0) \<Rightarrow>
                  Inr (Num (of_int (s - s0) * 1000000000 + of_int (n - n0)))
              | _ \<Rightarrow> Inr NaN)))"

text \<open>
  A row is the profile's \<open>data\<close> object with the properties \<open>durations\<close>, \<open>details\<close>
  (deleted when empty), \<open>startTime\<close> and \<open>endTime\<close> assigned to it. The statistics
  later add \<open>startMs\<close> and \<open>endMs\<close> to rows and durations; until then they are
  \<open>undefined\<close>. A payload is assumed not to have properties of these names itself.
\<close>

record rdur =
  rd_type :: string
  rd_duration :: jsnum
  rd_startMs :: jsnum
  rd_endMs :: jsnum

datatype row = Row
  (r_data: jsobject)
  (r_durations: "rdur list")
  (r_details: "row list option")
  (r_startTime: jsnum)
  (r_endTime: jsnum)
  (r_startMs: jsnum)
  (r_endMs: jsnum)

definition new_rdur :: "string \<Rightarrow> jsnum \<Rightarrow> rdur" where
  "new_rdur durationType duration =
     \<lparr>rd_type = durationType, rd_duration = duration, rd_startMs = NUndef, rd_endMs = NUndef\<rparr>"

text \<open>\<open>childProfile.data.Name = childProfile.data.Name || childProfile.type\<close>\<close>

definition with_Name :: "profile \<Rightarrow> profile" where
  "with_Name p =
     Profile ((info p)\<lparr>p_data :=
        put ''Name'' (js_or (get (p_data (info p)) ''Name'') (p_type (info p))) (p_data (info p))\<rparr>)
       (children p)"

text \<open>
  One step of the loop over \<open>profile.durations\<close>, on the list of durations, their
  total, and the profile's start and end time.
\<close>

definition duration_step :: "bool \<Rightarrow> rawtime option \<Rightarrow> string \<times> dur \<Rightarrow>
    rdur list \<times> jsnum \<times> jsnum \<times> jsnum \<Rightarrow>
    error + rdur list \<times> jsnum \<times> jsnum \<times> jsnum" where
  "duration_step isBrowser t0 entry acc =
     (case (entry, acc) of ((durationType, durationObj), (ds, totalDuration, st, en)) \<Rightarrow>
        (case normalize isBrowser t0 (d_startTime durationObj) of
           Inl e \<Rightarrow> Inl e
         | Inr startTime \<Rightarrow>
             (case normalize isBrowser t0 (d_endTime durationObj) of
                Inl e \<Rightarrow> Inl e
              | Inr endTime \<Rightarrow>
                  (let duration = js_sub endTime startTime in
                   Inr (ds @ [new_rdur durationType duration],
                        js_add totalDuration duration,
                        (if st \<noteq> NUndef then js_min st startTime else startTime),
                        (if en \<noteq> NUndef then js_max en endTime else endTime))))))"

lemma size_with_Name: "size (with_Name p) = size p"
  by (cases p) (simp add: with_Name_def)

text \<open>
  \<open>createRows(profile, rows)\<close> of \<open>getGui\<close>: the row pushed to \<open>rows\<close> and the new
  value of \<open>self.absoluteEndTime\<close>.
\<close>

function createRows :: "bool \<Rightarrow> rawtime option \<Rightarrow> profile \<Rightarrow> rat \<Rightarrow> error + row \<times> rat" where
  "createRows isBrowser t0 prof absoluteEndTime =
     (case normalize isBrowser t0 (p_startTime (info prof)) of
        Inl e \<Rightarrow> Inl e
      | Inr st0 \<Rightarrow>
     (case normalize isBrowser t0 (p_endTime (info prof)) of
        Inl e \<Rightarrow> Inl e
      | Inr en0 \<Rightarrow>
     (case foldE (duration_step isBrowser t0)
             (case p_durations (info prof) of None \<Rightarrow> [] | Some ds \<Rightarrow> ds)
             ([], Num 0, st0, en0) of
        Inl e \<Rightarrow> Inl e
      | Inr (ds, totalDuration, st1, en1) \<Rightarrow>
     (case foldE (\<lambda>entry acc.
             case foldE (\<lambda>childProfile acc'.
                    case createRows isBrowser t0 (with_Name childProfile) (snd (snd (snd acc'))) of
                      Inl e \<Rightarrow> Inl e
                    | Inr (childRow, ae) \<Rightarrow>
                        Inr (fst acc' @ [childRow],
                             (if fst (snd acc') \<noteq> NUndef then fst (snd acc') else r_startTime childRow),
                             r_endTime childRow,
                             ae))
                  (snd entry) (fst acc, NUndef, NUndef, snd (snd (snd acc))) of
               Inl e \<Rightarrow> Inl e
             | Inr (details, profileStartTime, profileEndTime, ae) \<Rightarrow>
                 Inr (details,
                      (if fst (snd acc) \<noteq> NUndef then js_min (fst (snd acc)) profileStartTime
                       else profileStartTime),
                      (if fst (snd (snd acc)) \<noteq> NUndef then js_max (fst (snd (snd acc))) profileEndTime
                       else profileEndTime),
                      ae))
             (children prof) ([], st1, en1, absoluteEndTime) of
        Inl e \<Rightarrow> Inl e
      | Inr (details, st2, en2, ae) \<Rightarrow>
          (let totalTime = js_sub en2 st2;
               durations =
                 (if ds = [] then [new_rdur ''Elapsed Time'' totalTime]
                  else if js_lt totalDuration totalTime
                  then ds @ [new_rdur ''Other'' (js_sub totalTime totalDuration)]
                  else ds)
           in Inr (Row (p_data (info prof)) durations
                     (if details = [] then None else Some details) st2 en2 NUndef NUndef,
                   max ae (or_zero en2)))))))"
  by pat_completeness auto
termination
proof (relation "measure (\<lambda>(isBrowser, t0, prof, absoluteEndTime). size prof)")
  show "wf (measure (\<lambda>(isBrowser, t0, prof, absoluteEndTime). size prof))" by simp
next
  fix isBrowser :: bool and t0 :: "rawtime option" and prof :: profile
    and entry :: "string \<times> profile list" and c and ae :: rat
  assume "entry \<in> set (children prof)" and "c \<in> set (snd entry)"
  then have "(fst entry, snd entry) \<in> set (children prof)" "c \<in> set (snd entry)" by simp_all
  then have "size c < size (Profile (info prof) (children prof))"
    by (rule size_child_less)
  then show "((isBrowser, t0, with_Name c, ae), (isBrowser, t0, prof, absoluteEndTime))
      \<in> measure (\<lambda>(isBrowser, t0, prof, absoluteEndTime). size prof)" for absoluteEndTime :: rat
    by (simp add: size_with_Name)
qed

declare createRows.simps [simp del]

section \<open>The environment\<close>

text \<open>
  What the code calls and the repository's source files do not contain: the two
  functions of the module \<open>mojito-waterfall-time\<close>, and built-in operations of
  JavaScript. They are parameters of the model.
  \<^item> \<open>h_isBrowser\<close>: whether \<open>window\<close> is an object;
  \<^item> \<open>h_timeToMs\<close>, \<open>h_msTimeToString\<close>: \<open>Y.mojito.Waterfall.Time.timeToMs\<close> and
    \<open>msTimeToString\<close>;
  \<^item> \<open>h_numberToString\<close>: the conversion of a number to a string;
  \<^item> \<open>h_eval\<close>: \<open>eval\<close>, returning the message of the exception it raises or its value;
  \<^item> \<open>h_substitute values e v\<close>: \<open>e.replace(new RegExp(v, 'g'), x)\<close> where \<open>x\<close> is
    \<open>values[v]\<close>, between single quotes when it is a string;
  \<^item> \<open>h_escape\<close>: the global function \<open>escape\<close>.
\<close>

record stat_value =
  sv_startTime :: jsnum
  sv_endTime :: jsnum
  sv_root :: jsval

text \<open>A statistic before its durations are formatted, as the statistics filter sees it.\<close>

record stat_numbers =
  sn_Name :: string
  sn_Calls :: nat
  sn_Total :: jsnum
  sn_Avg :: jsnum
  sn_Min :: jsnum
  sn_Max :: jsnum

datatype subject = RowSubject row | DurationSubject rdur | StatSubject stat_numbers

record host =
  h_isBrowser :: bool
  h_timeToMs :: "string \<Rightarrow> jsnum"
  h_msTimeToString :: "jsnum \<Rightarrow> nat \<Rightarrow> string"
  h_numberToString :: "rat \<Rightarrow> string"
  h_eval :: "string \<Rightarrow> string + jsval"
  h_substitute :: "subject \<Rightarrow> string \<Rightarrow> string \<Rightarrow> string"
  h_escape :: "string \<Rightarrow> string"

text \<open>The conversion of a primitive value to a string, and to a property name.\<close>

definition to_string :: "host \<Rightarrow> jsval \<Rightarrow> string" where
  "to_string h v =
     (case v of
        VUndefined \<Rightarrow> ''undefined''
      | VNull \<Rightarrow> ''null''
      | VBool b \<Rightarrow> (if b then ''true'' else ''false'')
      | VNum q \<Rightarrow> h_numberToString h q
      | VStr s \<Rightarrow> s)"

text \<open>
  \<open>Array.prototype.sort\<close> with a comparison function, taken to be the insertion sort
  that V8 runs on arrays of up to ten elements: each element in turn moves left past
  the elements \<open>t\<close> for which \<open>comparefn(t, x) > 0\<close>, written \<open>gt t x\<close>. The
  accumulator is the sorted prefix, reversed.
\<close>

fun insert_left :: "('a \<Rightarrow> 'a \<Rightarrow> bool) \<Rightarrow> 'a \<Rightarrow> 'a list \<Rightarrow> 'a list" where
  "insert_left gt x [] = [x]"
| "insert_left gt x (t # ts) = (if gt t x then t # insert_left gt x ts else x # t # ts)"

definition insertion_sort :: "('a \<Rightarrow> 'a \<Rightarrow> bool) \<Rightarrow> 'a list \<Rightarrow> 'a list" where
  "insertion_sort gt xs = rev (fold (insert_left gt) xs [])"

section \<open>Filter expressions\<close>

definition is_digit :: "char \<Rightarrow> bool" where
  "is_digit c = (48 \<le> (of_char c :: nat) \<and> (of_char c :: nat) \<le> 57)"

text \<open>\<open>\w\<close>\<close>

definition is_word :: "char \<Rightarrow> bool" where
  "is_word c = (is_digit c \<or> (65 \<le> (of_char c :: nat) \<and> (of_char c :: nat) \<le> 90)
     \<or> (97 \<le> (of_char c :: nat) \<and> (of_char c :: nat) \<le> 122) \<or> c = CHR ''_'')"

text \<open>\<open>[\d\w\s\'\"]\<close>\<close>

definition is_variable_char :: "char \<Rightarrow> bool" where
  "is_variable_char c = (is_digit c \<or> is_word c \<or> is_space c \<or> c = CHR 0x27 \<or> c = CHR 0x22)"

text \<open>\<open>s.split(re)\<close> for an expression \<open>re\<close> that matches one character.\<close>

fun split_where :: "(char \<Rightarrow> bool) \<Rightarrow> string \<Rightarrow> string list" where
  "split_where sep [] = [[]]"
| "split_where sep (x # xs) =
     (if sep x then [] # split_where sep xs
      else (case split_where sep xs of [] \<Rightarrow> [[x]] | p # ps \<Rightarrow> (x # p) # ps))"

text \<open>
  \<open>/^((\d+)|(\'.*\')|(\".*\")|(true)|(false)|(null)|(undefined)|(NaN))$/\<close>; the dot
  matches no line terminator.
\<close>

definition quoted :: "char \<Rightarrow> string \<Rightarrow> bool" where
  "quoted q v = (2 \<le> length v \<and> hd v = q \<and> last v = q \<and>
     (\<forall>c \<in> set (butlast (tl v)). c \<noteq> CHR 0x0A \<and> c \<noteq> CHR 0x0D))"

definition is_literal :: "string \<Rightarrow> bool" where
  "is_literal v = ((v \<noteq> [] \<and> list_all is_digit v) \<or> quoted (CHR 0x27) v \<or> quoted (CHR 0x22) v
     \<or> v \<in> set [''true'', ''false'', ''null'', ''undefined'', ''NaN''])"

text \<open>
  \<open>Waterfall._executeExpression\<close>: the line logged, if any, and the value returned.
  Without an expression the value is \<open>null\<close>; so it is when \<open>eval\<close> raises, after the
  exception is logged. \<open>value_expression\<close> is the text given to \<open>eval\<close>: the expression
  with its variables, longest first, replaced by their values.
\<close>

definition value_expression :: "host \<Rightarrow> string \<Rightarrow> subject \<Rightarrow> string" where
  "value_expression h ex values =
     (let variables = insertion_sort (\<lambda>t x. length t < length x)
            (filter (\<lambda>v. v \<noteq> [] \<and> \<not> is_literal v)
               (map trim (split_where (\<lambda>c. \<not> is_variable_char c) ex)))
      in fold (\<lambda>v e. h_substitute h values e v) variables ex)"

definition expression_error :: "string \<Rightarrow> string \<Rightarrow> string \<Rightarrow> string" where
  "expression_error ex valueExpression message =
     ''Error executing the expression '' @ [CHR 0x22] @ ex @ [CHR 0x22] @ '' = ''
       @ [CHR 0x22] @ valueExpression @ [CHR 0x22] @ '': '' @ message"

definition executeExpression :: "host \<Rightarrow> string option \<Rightarrow> subject \<Rightarrow> string list \<times> jsval" where
  "executeExpression h expression values =
     (case expression of
        None \<Rightarrow> ([], VNull)
      | Some ex \<Rightarrow>
          if ex = [] then ([], VNull)
          else
            (case h_eval h (value_expression h ex values) of
               Inl message \<Rightarrow>
                 ([expression_error ex (value_expression h ex values) message], VNull)
             | Inr v \<Rightarrow> ([], v)))"

section \<open>Statistics\<close>

text \<open>
  The variables \<open>stats\<close>, \<open>minTime\<close> and \<open>maxTime\<close> of \<open>computeStats\<close> while the rows
  are visited.
\<close>

record sstate =
  ss_stats :: "(string \<times> stat_value list) list"
  ss_minTime :: jsnum
  ss_maxTime :: jsnum

text \<open>\<open>profile.startTime + (Number(profile.startTime) ? units : '')\<close>\<close>

definition time_arg :: "host \<Rightarrow> string \<Rightarrow> jsnum \<Rightarrow> string" where
  "time_arg h units x =
     (case x of
        NUndef \<Rightarrow> ''undefined''
      | NaN \<Rightarrow> ''NaN''
      | Num q \<Rightarrow> h_numberToString h q @ (if q \<noteq> 0 then units else []))"

text \<open>\<open>getMsTime\<close> on a row, and on a duration (which has no \<open>startTime\<close> or \<open>endTime\<close>).\<close>

fun getMsTime_row :: "host \<Rightarrow> string \<Rightarrow> row \<Rightarrow> row" where
  "getMsTime_row h units (Row d ds det st en sm em) =
     Row d ds det st en
       (if sm = NUndef then h_timeToMs h (time_arg h units st) else sm)
       (if em = NUndef then h_timeToMs h (time_arg h units en) else em)"

definition getMsTime_duration :: "host \<Rightarrow> string \<Rightarrow> rdur \<Rightarrow> rdur" where
  "getMsTime_duration h units d =
     d\<lparr>rd_startMs := (if rd_startMs d = NUndef then h_timeToMs h (time_arg h units NUndef)
                      else rd_startMs d),
       rd_endMs := (if rd_endMs d = NUndef then h_timeToMs h (time_arg h units NUndef)
                    else rd_endMs d)\<rparr>"

text \<open>
  \<open>addStat\<close> after the filter let the profile through. \<open>stats[type]\<close> of a type that
  \<open>Object.prototype\<close> defines and no profile had before is a function without a
  \<open>push\<close> method: calling it raises a TypeError.
\<close>

definition pushStat :: "string \<Rightarrow> jsnum \<Rightarrow> jsnum \<Rightarrow> jsval \<Rightarrow> sstate \<Rightarrow> error + sstate" where
  "pushStat type startMs endMs rootName st =
     (let v = \<lparr>sv_startTime = startMs, sv_endTime = endMs, sv_root = rootName\<rparr>;
          times = (if ss_minTime st = NUndef then startMs else js_min startMs (ss_minTime st),
                   if ss_maxTime st = NUndef then endMs else js_max endMs (ss_maxTime st))
      in case map_of (ss_stats st) type of
           None \<Rightarrow>
             if type \<in> set Object_prototype then Inl TypeError
             else Inr \<lparr>ss_stats = ss_stats st @ [(type, [v])],
                       ss_minTime = fst times, ss_maxTime = snd times\<rparr>
         | Some statArray \<Rightarrow>
             Inr \<lparr>ss_stats = put type (statArray @ [v]) (ss_stats st),
                  ss_minTime = fst times, ss_maxTime = snd times\<rparr>)"

text \<open>
  \<open>addStat(profile, root)\<close>: the profile is left out exactly when the filter expression
  evaluates to \<open>false\<close>.
\<close>

definition subject_of :: "row + rdur \<Rightarrow> subject" where
  "subject_of profile = (case profile of Inl r \<Rightarrow> RowSubject r | Inr d \<Rightarrow> DurationSubject d)"

text \<open>\<open>profile.type || profile.Name\<close>, as a property name.\<close>

definition profile_type :: "host \<Rightarrow> row + rdur \<Rightarrow> string" where
  "profile_type h profile =
     (case profile of
        Inl r \<Rightarrow> to_string h (js_or (get (r_data r) ''type'') (get (r_data r) ''Name''))
      | Inr d \<Rightarrow> to_string h (js_or (VStr (rd_type d)) VUndefined))"

definition profile_startMs :: "row + rdur \<Rightarrow> jsnum" where
  "profile_startMs profile = (case profile of Inl r \<Rightarrow> r_startMs r | Inr d \<Rightarrow> rd_startMs d)"

definition profile_endMs :: "row + rdur \<Rightarrow> jsnum" where
  "profile_endMs profile = (case profile of Inl r \<Rightarrow> r_endMs r | Inr d \<Rightarrow> rd_endMs d)"

definition addStat :: "host \<Rightarrow> string option \<Rightarrow> row + rdur \<Rightarrow> jsval \<Rightarrow> sstate \<Rightarrow>
    string list \<times> (error + sstate)" where
  "addStat h profileFilter profile rootName st =
     (case executeExpression h profileFilter (subject_of profile) of
        (l, v) \<Rightarrow>
          if v = VBool False then (l, Inr st)
          else (l, pushStat (profile_type h profile) (profile_startMs profile)
                     (profile_endMs profile) rootName st))"

text \<open>A fold that stops at the first exception and collects the lines logged.\<close>

fun foldL :: "('a \<Rightarrow> 's \<Rightarrow> string list \<times> (error + 's)) \<Rightarrow> 'a list \<Rightarrow> 's \<Rightarrow> string list \<times> (error + 's)" where
  "foldL f [] s = ([], Inr s)"
| "foldL f (x # xs) s =
     (case f x s of
        (l, Inl e) \<Rightarrow> (l, Inl e)
      | (l, Inr s') \<Rightarrow> (case foldL f xs s' of (l', r) \<Rightarrow> (l @ l', r)))"

lemma foldL_cong [fundef_cong]:
  "xs = ys \<Longrightarrow> s = t \<Longrightarrow> (\<And>x u. x \<in> set ys \<Longrightarrow> f x u = g x u) \<Longrightarrow> foldL f xs s = foldL g ys t"
  by (induction ys arbitrary: xs s t) (auto split: sum.splits prod.splits)

text \<open>
  The names of the rows of one level: \<open>names[name] = names[name] === undefined ? 0 : 1\<close>,
  where a name that \<open>Object.prototype\<close> defines is not \<open>undefined\<close> to begin with.
\<close>

definition count_name :: "string \<Rightarrow> (string \<times> nat) list \<Rightarrow> (string \<times> nat) list" where
  "count_name name names =
     put name (if map_of names name = None \<and> name \<notin> set Object_prototype then 0 else 1) names"

text \<open>
  \<open>if (names[name]) { row.Name = name + ' (' + names[name] + ')'; names[name]++; }\<close>
\<close>

fun rename_row :: "host \<Rightarrow> row \<Rightarrow> (string \<times> nat) list \<Rightarrow> row \<times> (string \<times> nat) list" where
  "rename_row h (Row d ds det st en sm em) names =
     (let name = to_string h (get d ''Name'') in
      case map_of names name of
        None \<Rightarrow> (Row d ds det st en sm em, names)
      | Some n \<Rightarrow>
          if n = 0 then (Row d ds det st en sm em, names)
          else (Row (put ''Name'' (VStr (name @ '' ('' @ h_numberToString h (of_nat n) @ '')'')) d)
                  ds det st en sm em,
                put name (Suc n) names))"

text \<open>The loop over \<open>row.durations\<close> in \<open>getStats\<close>.\<close>

definition duration_stat :: "host \<Rightarrow> string option \<Rightarrow> string \<Rightarrow> jsval \<Rightarrow> rdur \<Rightarrow>
    rdur list \<times> sstate \<Rightarrow> string list \<times> (error + rdur list \<times> sstate)" where
  "duration_stat h profileFilter units rootName duration acc =
     (if rd_type duration \<noteq> ''Elapsed Time'' then
        (let d = getMsTime_duration h units duration in
         case addStat h profileFilter (Inr d) rootName (snd acc) of
           (l, Inl e) \<Rightarrow> (l, Inl e)
         | (l, Inr st) \<Rightarrow> (l, Inr (fst acc @ [d], st)))
      else ([], Inr (fst acc @ [duration], snd acc)))"

lemma details_getMsTime_row: "r_details (getMsTime_row h units r) = r_details r"
  by (cases r) simp

lemma set_insert_left: "set (insert_left gt x ts) = insert x (set ts)"
  by (induction ts) auto

lemma set_fold_insert_left: "set (fold (insert_left gt) xs acc) = set xs \<union> set acc"
  by (induction xs arbitrary: acc) (auto simp: set_insert_left)

lemma set_insertion_sort: "set (insertion_sort gt xs) = set xs"
  by (simp add: insertion_sort_def set_fold_insert_left)

lemma size_details_less:
  "r \<in> set rows \<Longrightarrow> r_details r = Some det \<Longrightarrow> size_list size det < size_list size rows"
proof (induction rows)
  case Nil
  then show ?case by simp
next
  case (Cons a rows)
  show ?case
  proof (cases "r = a")
    case True
    with Cons.prems(2) show ?thesis by (cases a) auto
  next
    case False
    with Cons have "size_list size det < size_list size rows" by simp
    then show ?thesis by simp
  qed
qed

text \<open>
  \<open>getStats(rows, root)\<close>: the rows as it leaves them (with their times in
  milliseconds, sorted by start, renamed where a name repeats), and the statistics.
\<close>

function getStats :: "host \<Rightarrow> string option \<Rightarrow> string \<Rightarrow> row list option \<Rightarrow> jsval \<Rightarrow> sstate \<Rightarrow>
    string list \<times> (error + row list option \<times> sstate)" where
  "getStats h profileFilter units None rootName st = ([], Inr (None, st))"
| "getStats h profileFilter units (Some rows) rootName st =
     (let sorted = insertion_sort (\<lambda>t x. js_lt (r_startMs x) (r_startMs t))
                     (map (getMsTime_row h units) rows);
          names = fold (\<lambda>row. count_name (to_string h (get (r_data row) ''Name''))) sorted []
      in case foldL (\<lambda>row acc.
                case rename_row h row (fst acc) of
                  (renamed, names') \<Rightarrow>
                    (case foldL (duration_stat h profileFilter units rootName) (r_durations renamed)
                            ([], snd (snd acc)) of
                       (l1, Inl e) \<Rightarrow> (l1, Inl e)
                     | (l1, Inr (ds, st1)) \<Rightarrow>
                         (let row1 = Row (r_data renamed) ds (r_details renamed) (r_startTime renamed)
                                       (r_endTime renamed) (r_startMs renamed) (r_endMs renamed);
                              rootName' = js_or rootName (get (r_data row1) ''Name'')
                          in case addStat h profileFilter (Inl row1) rootName' st1 of
                               (l2, Inl e) \<Rightarrow> (l1 @ l2, Inl e)
                             | (l2, Inr st2) \<Rightarrow>
                                 (case getStats h profileFilter units (r_details row) rootName' st2 of
                                    (l3, Inl e) \<Rightarrow> (l1 @ l2 @ l3, Inl e)
                                  | (l3, Inr (details, st3)) \<Rightarrow>
                                      (l1 @ l2 @ l3,
                                       Inr (names',
                                            fst (snd acc) @
                                              [Row (r_data row1) ds details (r_startTime row1)
                                                 (r_endTime row1) (r_startMs row1) (r_endMs row1)],
                                            st3))))))
              sorted (names, [], st) of
           (l, Inl e) \<Rightarrow> (l, Inl e)
         | (l, Inr (names', rows', st')) \<Rightarrow> (l, Inr (Some rows', st')))"
  by pat_completeness auto
termination
proof (relation "measure (\<lambda>(h, profileFilter, units, rows, rootName, st).
          case rows of None \<Rightarrow> 0 | Some rs \<Rightarrow> Suc (size_list size rs))")
  show "wf (measure (\<lambda>(h, profileFilter, units, rows, rootName, st).
          case rows of None \<Rightarrow> 0 | Some rs \<Rightarrow> Suc (size_list size rs)))" by simp
next
  fix h :: host and profileFilter :: "string option" and units :: string and rows :: "row list"
    and rootName :: jsval and st :: sstate and sorted row and rootName' :: jsval and st2 :: sstate
  assume s: "sorted = insertion_sort (\<lambda>t x. js_lt (r_startMs x) (r_startMs t))
                (map (getMsTime_row h units) rows)"
    and r: "row \<in> set sorted"
  from r s obtain r0 where r0: "r0 \<in> set rows" "row = getMsTime_row h units r0"
    by (auto simp: set_insertion_sort)
  have d: "r_details row = r_details r0" using r0(2) by (simp add: details_getMsTime_row)
  show "((h, profileFilter, units, r_details row, rootName', st2),
         (h, profileFilter, units, Some rows, rootName, st))
    \<in> measure (\<lambda>(h, profileFilter, units, rows, rootName, st).
          case rows of None \<Rightarrow> 0 | Some rs \<Rightarrow> Suc (size_list size rs))"
  proof (cases "r_details r0")
    case None
    with d show ?thesis by simp
  next
    case (Some det)
    from size_details_less[OF r0(1) Some] d Some show ?thesis by simp
  qed
qed

declare getStats.simps [simp del]

text \<open>
  The loop over one array of \<open>stats\<close> in \<open>computeStats\<close>: the total, the least and
  the greatest duration with the name each came with, and the summary.
\<close>

record stat_acc =
  a_totalDuration :: jsnum
  a_minDuration :: "(jsnum \<times> jsval) option"
  a_maxDuration :: "(jsnum \<times> jsval) option"
  a_summary :: "(jsval \<times> jsnum) list"

definition stat_step :: "stat_value \<Rightarrow> stat_acc \<Rightarrow> stat_acc" where
  "stat_step statValue a =
     (let duration = js_sub (sv_endTime statValue) (sv_startTime statValue);
          name = sv_root statValue
      in \<lparr>a_totalDuration = js_add (a_totalDuration a) duration,
          a_minDuration =
            (case a_minDuration a of
               None \<Rightarrow> Some (duration, name)
             | Some (m, n) \<Rightarrow> if js_lt duration m then Some (duration, name) else Some (m, n)),
          a_maxDuration =
            (case a_maxDuration a of
               None \<Rightarrow> Some (duration, name)
             | Some (m, n) \<Rightarrow> if js_lt m duration then Some (duration, name) else Some (m, n)),
          a_summary = a_summary a @ [(name, duration)]\<rparr>)"

definition stat_fold :: "stat_value list \<Rightarrow> stat_acc" where
  "stat_fold statArray =
     fold stat_step statArray
       \<lparr>a_totalDuration = Num 0, a_minDuration = None, a_maxDuration = None, a_summary = []\<rparr>"

text \<open>\<open>totalDuration / statArray.length\<close>\<close>

fun js_div_nat :: "jsnum \<Rightarrow> nat \<Rightarrow> jsnum" where
  "js_div_nat (Num a) n = (if n = 0 then NaN else Num (a / of_nat n))"
| "js_div_nat _ n = NaN"

text \<open>A statistic with its durations formatted, as the report prints it.\<close>

record stat =
  st_Name :: string
  st_Calls :: nat
  st_Total :: string
  st_Avg :: string
  st_Min :: string
  st_Max :: string
  st_summary :: "(jsval \<times> string) list"

text \<open>
  The text after the least and the greatest duration: the name it came with, in
  parentheses, unless that name is the type of the statistic.
\<close>

definition annotation :: "host \<Rightarrow> string \<Rightarrow> jsval \<Rightarrow> string" where
  "annotation h statType name =
     (if name = VStr statType then [] else '' ('' @ to_string h name @ '')'')"

text \<open>
  An entry of the object that \<open>computeStats\<close> returns: a statistic, the array of a type
  whose statistic the filter refused (which is left where it was), or the text stored
  under \<open>totalDuration\<close>.
\<close>

datatype stats_entry = Stat stat | Refused "stat_value list" | Text string

text \<open>The body of the loop over \<open>stats\<close>, for one type.\<close>

definition summarize :: "host \<Rightarrow> string option \<Rightarrow> string \<Rightarrow> stat_value list \<Rightarrow> string list \<times> stats_entry" where
  "summarize h statsFilter statType statArray =
     (let a = stat_fold statArray;
          minDuration = (case a_minDuration a of None \<Rightarrow> (NUndef, VUndefined) | Some m \<Rightarrow> m);
          maxDuration = (case a_maxDuration a of None \<Rightarrow> (NUndef, VUndefined) | Some m \<Rightarrow> m);
          numbers = \<lparr>sn_Name = statType, sn_Calls = length statArray,
                     sn_Total = a_totalDuration a,
                     sn_Avg = js_div_nat (a_totalDuration a) (length statArray),
                     sn_Min = fst minDuration, sn_Max = fst maxDuration\<rparr>
      in case executeExpression h statsFilter (StatSubject numbers) of
           (l, v) \<Rightarrow>
             if v = VBool False then (l, Refused statArray)
             else
               (l, Stat \<lparr>st_Name = statType, st_Calls = length statArray,
                         st_Total = h_msTimeToString h (sn_Total numbers) 4,
                         st_Avg = h_msTimeToString h (sn_Avg numbers) 4,
                         st_Min = h_msTimeToString h (sn_Min numbers) 4
                                    @ annotation h statType (snd minDuration),
                         st_Max = h_msTimeToString h (sn_Max numbers) 4
                                    @ annotation h statType (snd maxDuration),
                         st_summary =
                           map (\<lambda>(name, duration). (name, h_msTimeToString h duration 4))
                             (insertion_sort (\<lambda>t x. js_lt (Num 0) (js_sub (snd x) (snd t)))
                                (a_summary a))\<rparr>))"

text \<open>The part of the configuration that the code reads.\<close>

record stats_config =
  sc_profileFilter :: "string option"
  sc_statsFilter :: "string option"

record config =
  c_headers :: "string list option"
  c_stats :: "stats_config option"

text \<open>
  \<open>Waterfall.computeStats(waterfall, config)\<close>: the lines logged, and the rows as the
  statistics leave them with the object returned, unless an exception was raised.
\<close>

definition computeStats :: "host \<Rightarrow> config option \<Rightarrow> string \<Rightarrow> row list option \<Rightarrow>
    string list \<times> (error + row list option \<times> (string \<times> stats_entry) list)" where
  "computeStats h cfg units rows =
     (let profileFilter = (case cfg of None \<Rightarrow> None | Some c \<Rightarrow>
                             (case c_stats c of None \<Rightarrow> None | Some sc \<Rightarrow> sc_profileFilter sc));
          statsFilter = (case cfg of None \<Rightarrow> None | Some c \<Rightarrow>
                             (case c_stats c of None \<Rightarrow> None | Some sc \<Rightarrow> sc_statsFilter sc))
      in case getStats h profileFilter units rows VUndefined
                \<lparr>ss_stats = [], ss_minTime = NUndef, ss_maxTime = NUndef\<rparr> of
           (l, Inl e) \<Rightarrow> (l, Inl e)
         | (l, Inr (rows', st)) \<Rightarrow>
             (let entries = map (\<lambda>(statType, statArray).
                                   (statType, summarize h statsFilter statType statArray))
                              (ss_stats st)
              in (l @ concat (map (\<lambda>(statType, (l', entry)). l') entries),
                  Inr (rows',
                       put ''totalDuration''
                         (Text (h_msTimeToString h (js_sub (ss_maxTime st) (ss_minTime st)) 4))
                         (map (\<lambda>(statType, (l', entry)). (statType, entry)) entries)))))"

section \<open>The Waterfall object\<close>

text \<open>
  What a method of an instance is at a given moment: the function of the prototype,
  the empty function that \<open>pause\<close> installs, or the function that \<open>_disable\<close> installs.
\<close>

datatype impl = Prototype | Noop | Disabled

record waterfall =
  w_headers :: "string list"
  w_rows :: "row list option"
  w_units :: string
  w_events :: "(string \<times> jsnum \<times> jsobject option) list"
  w_summary :: string
  w_stats :: "(string \<times> stats_entry) list"

text \<open>
  The state of an instance. \<open>this.headers\<close> is the array \<open>config.headers\<close> itself when
  the configuration given to the constructor had one (\<open>i_headers\<close> says so), and
  \<open>undefined\<close> otherwise. The fields \<open>events\<close>, \<open>_rootProfile\<close>, \<open>absoluteStartTime\<close> and
  \<open>absoluteEndTime\<close> are written by \<open>getGui\<close> only; the events are kept with their times
  normalized, as \<open>getGui\<close> leaves them.
\<close>

record winstance =
  i_config :: "config option"
  i_headers :: bool
  i_calls :: "call list"
  i_events :: "(string \<times> jsnum \<times> jsobject option) list"
  i_rootProfile :: "profile option"
  i_absoluteStartTime :: "rawtime option"
  i_absoluteEndTime :: "rat option"
  i_waterfall :: "waterfall option"
  i_configure :: impl
  i_start :: impl
  i_end :: impl
  i_event :: impl
  i_clear :: impl
  i_pause :: impl
  i_resume :: impl
  i_originalStart :: "impl option"
  i_originalEnd :: "impl option"
  i_originalEvent :: "impl option"

text \<open>\<open>new Waterfall(config)\<close>\<close>

definition new_Waterfall :: "config option \<Rightarrow> winstance" where
  "new_Waterfall cfg =
     \<lparr>i_config = cfg,
      i_headers = (case cfg of None \<Rightarrow> False | Some c \<Rightarrow> c_headers c \<noteq> None),
      i_calls = [], i_events = [], i_rootProfile = None,
      i_absoluteStartTime = None, i_absoluteEndTime = None, i_waterfall = None,
      i_configure = Prototype, i_start = Prototype, i_end = Prototype, i_event = Prototype,
      i_clear = Prototype, i_pause = Prototype, i_resume = Prototype,
      i_originalStart = None, i_originalEnd = None, i_originalEvent = None\<rparr>"

text \<open>
  \<open>Y.mix(this.config, config, true, null, 0, true)\<close> on configurations: a property of
  the new configuration overwrites the old one, except that two arrays are merged
  index by index and two objects property by property.
\<close>

definition mix_config :: "config \<Rightarrow> config \<Rightarrow> config" where
  "mix_config to from =
     \<lparr>c_headers =
        (case (c_headers to, c_headers from) of
           (old, None) \<Rightarrow> old
         | (None, Some new) \<Rightarrow> Some new
         | (Some old, Some new) \<Rightarrow> Some (new @ drop (length new) old)),
      c_stats =
        (case (c_stats to, c_stats from) of
           (old, None) \<Rightarrow> old
         | (None, Some new) \<Rightarrow> Some new
         | (Some old, Some new) \<Rightarrow>
             Some \<lparr>sc_profileFilter =
                     (case sc_profileFilter new of None \<Rightarrow> sc_profileFilter old | Some f \<Rightarrow> Some f),
                   sc_statsFilter =
                     (case sc_statsFilter new of None \<Rightarrow> sc_statsFilter old | Some f \<Rightarrow> Some f)\<rparr>)\<rparr>"

text \<open>The line logged by the function that \<open>_disable\<close> installs.\<close>

definition disabled_line :: string where
  "disabled_line =
     error_line ''Cannot continue profiling after the waterfall has been finalized.'' ''undefined''"

text \<open>
  A call of one of the methods that \<open>_disable\<close> replaces, with its arguments; the time
  is the reading of \<open>Waterfall._now()\<close> that \<open>start\<close>, \<open>end\<close> and \<open>event\<close> take.
\<close>

datatype method_call =
    CallConfigure "config option"
  | CallStart string "jsobject option" rawtime
  | CallEnd string "jsobject option" rawtime
  | CallEvent string "jsobject option" rawtime
  | CallClear
  | CallPause
  | CallResume

definition record_call :: "impl \<Rightarrow> call \<Rightarrow> winstance \<Rightarrow> string list \<times> winstance" where
  "record_call f c inst =
     (case f of
        Prototype \<Rightarrow> ([], inst\<lparr>i_calls := i_calls inst @ [c]\<rparr>)
      | Noop \<Rightarrow> ([], inst)
      | Disabled \<Rightarrow> ([disabled_line], inst))"

text \<open>
  Calling a method: the lines logged and the instance afterwards. \<open>pause\<close> and \<open>resume\<close>
  are never replaced by the empty function.
\<close>

definition invoke :: "method_call \<Rightarrow> winstance \<Rightarrow> string list \<times> winstance" where
  "invoke m inst =
     (case m of
        CallConfigure cfg \<Rightarrow>
          (if i_configure inst = Disabled then ([disabled_line], inst)
           else (case (i_config inst, cfg) of
                   (Some old, Some new) \<Rightarrow> ([], inst\<lparr>i_config := Some (mix_config old new)\<rparr>)
                 | _ \<Rightarrow> ([], inst)))
      | CallStart key data time \<Rightarrow> record_call (i_start inst) (Start key time data) inst
      | CallEnd key data time \<Rightarrow> record_call (i_end inst) (End key time data) inst
      | CallEvent name data time \<Rightarrow> record_call (i_event inst) (Event name time data) inst
      | CallClear \<Rightarrow>
          (if i_clear inst = Disabled then ([disabled_line], inst)
           else ([], inst\<lparr>i_calls := []\<rparr>))
      | CallPause \<Rightarrow>
          (if i_pause inst = Disabled then ([disabled_line], inst)
           else ([], inst\<lparr>
             i_originalStart := Some (case i_originalStart inst of None \<Rightarrow> i_start inst | Some f \<Rightarrow> f),
             i_originalEnd := Some (case i_originalEnd inst of None \<Rightarrow> i_end inst | Some f \<Rightarrow> f),
             i_originalEvent := Some (case i_originalEvent inst of None \<Rightarrow> i_event inst | Some f \<Rightarrow> f),
             i_start := Noop, i_end := Noop, i_event := Noop\<rparr>))
      | CallResume \<Rightarrow>
          (if i_resume inst = Disabled then ([disabled_line], inst)
           else ([], inst\<lparr>
             i_start := (case i_originalStart inst of None \<Rightarrow> i_start inst | Some f \<Rightarrow> f),
             i_end := (case i_originalEnd inst of None \<Rightarrow> i_end inst | Some f \<Rightarrow> f),
             i_event := (case i_originalEvent inst of None \<Rightarrow> i_event inst | Some f \<Rightarrow> f),
             i_originalStart := None, i_originalEnd := None, i_originalEvent := None\<rparr>)))"

text \<open>\<open>Waterfall.prototype._disable\<close>\<close>

definition disable :: "winstance \<Rightarrow> winstance" where
  "disable inst =
     inst\<lparr>i_configure := Disabled, i_start := Disabled, i_end := Disabled, i_event := Disabled,
          i_clear := Disabled, i_pause := Disabled, i_resume := Disabled\<rparr>"

text \<open>\<open>Waterfall._timeToMs\<close>\<close>

definition timeToMs_number :: "host \<Rightarrow> rat \<Rightarrow> rat" where
  "timeToMs_number h time = (if h_isBrowser h then time else time / 1000000)"

text \<open>The loop over \<open>this.events\<close> in \<open>getGui\<close>.\<close>

definition normalize_event :: "host \<Rightarrow> rawtime option \<Rightarrow> string \<times> rawtime \<times> jsobject option \<Rightarrow>
    (string \<times> jsnum \<times> jsobject option) list \<times> rat \<Rightarrow>
    error + (string \<times> jsnum \<times> jsobject option) list \<times> rat" where
  "normalize_event h t0 ev acc =
     (case ev of (name, time, data) \<Rightarrow>
        (case normalize (h_isBrowser h) t0 (Some time) of
           Inl e \<Rightarrow> Inl e
         | Inr t \<Rightarrow> Inr (fst acc @ [(name, t, data)], max (snd acc) (or_zero t))))"

text \<open>
  \<open>Waterfall.prototype.getGui\<close>: the lines logged, and the waterfall with the instance
  afterwards, unless an exception was raised. The first call disables the recording
  methods, processes the log, builds the rows and the statistics and keeps the result;
  later calls return it. On an instance whose \<open>getGui\<close> has not returned before,
  \<open>events\<close> is empty and \<open>absoluteStartTime\<close> and \<open>_rootProfile\<close> are \<open>undefined\<close>. What
  an exception leaves in the instance is not modelled. (\<open>createRows\<close> also stores the
  normalized times and the names in the profiles, where nothing reads them again.)
\<close>

definition getGui :: "host \<Rightarrow> winstance \<Rightarrow> string list \<times> (error + waterfall \<times> winstance)" where
  "getGui h inst =
     (case i_waterfall inst of
        Some w \<Rightarrow> ([], Inr (w, inst))
      | None \<Rightarrow>
          (case processCalls (i_calls (disable inst)) (initial [] None) of
             (l, Inl e) \<Rightarrow> (l, Inl e)
           | (l, Inr (s, rootProfile)) \<Rightarrow>
               (let this_headers = (if i_headers inst
                                    then (case i_config inst of None \<Rightarrow> None | Some c \<Rightarrow> c_headers c)
                                    else None);
                    hs = (case this_headers of None \<Rightarrow> [] | Some x \<Rightarrow> x);
                    headers = (if ''Name'' \<in> set hs then hs else ''Name'' # hs);
                    units = (if h_isBrowser h then ''ms'' else ''ns'')
                in case foldE (normalize_event h (absoluteStartTime s)) (events s) ([], 0) of
                     Inl e \<Rightarrow> (l, Inl e)
                   | Inr (evs, ae) \<Rightarrow>
                       (case createRows (h_isBrowser h) (absoluteStartTime s) rootProfile ae of
                          Inl e \<Rightarrow> (l, Inl e)
                        | Inr (top_row, absoluteEndTime) \<Rightarrow>
                            (case computeStats h (i_config inst) units (r_details top_row) of
                               (l', Inl e) \<Rightarrow> (l @ l', Inl e)
                             | (l', Inr (rows, stats)) \<Rightarrow>
                                 (let w = \<lparr>w_headers = headers, w_rows = rows, w_units = units,
                                           w_events = evs,
                                           w_summary = h_escape h
                                             (''<div style='' @ [CHR 0x22] @ ''text-align:right'' @ [CHR 0x22]
                                              @ ''>Total Execution Time: ''
                                              @ h_msTimeToString h
                                                  (Num (timeToMs_number h absoluteEndTime)) 4
                                              @ ''</div>''),
                                           w_stats = stats\<rparr>
                                  in (l @ l',
                                      Inr (w, (disable inst)\<lparr>
                                        i_config := (case (this_headers, i_config inst) of
                                                       (Some x, Some c) \<Rightarrow> Some (c\<lparr>c_headers := Some headers\<rparr>)
                                                     | _ \<Rightarrow> i_config inst),
                                        i_events := evs,
                                        i_rootProfile := Some rootProfile,
                                        i_absoluteStartTime := absoluteStartTime s,
                                        i_absoluteEndTime := Some absoluteEndTime,
                                        i_waterfall := Some w\<rparr>))))))))"

section \<open>The language of a regular expression\<close>

text \<open>
  The words a regular expression denotes, and the fact that \<open>rmatch\<close> only removes
  such words from the front of its input.
\<close>

inductive_set star :: "string set \<Rightarrow> string set" for A :: "string set" where
  star_Nil: "[] \<in> star A"
| star_Cons: "a \<in> A \<Longrightarrow> w \<in> star A \<Longrightarrow> a @ w \<in> star A"

primrec lang :: "rexp \<Rightarrow> string set" where
  "lang (Chr c) = {[c]}"
| "lang (NotIn cs) = {[x] | x. x \<notin> set cs}"
| "lang (Seq r1 r2) = {p @ q | p q. p \<in> lang r1 \<and> q \<in> lang r2}"
| "lang (Opt r) = insert [] (lang r)"
| "lang (Star r) = star (lang r)"
| "lang (Plus r) = {p @ q | p q. p \<in> lang r \<and> q \<in> star (lang r)}"

lemma iter_sound:
  assumes f: "\<And>s t. t \<in> set (f s) \<Longrightarrow> \<exists>p. s = p @ t \<and> p \<in> A"
  shows "t \<in> set (iter n f s) \<Longrightarrow> \<exists>p. s = p @ t \<and> p \<in> star A"
proof (induction n arbitrary: s t)
  case 0
  then show ?case by (auto intro: star_Nil)
next
  case (Suc n)
  from Suc.prems have "t = s \<or> (\<exists>u \<in> set (f s). t \<in> set (iter n f u))" by auto
  then show ?case
  proof
    assume "t = s"
    then show ?thesis by (auto intro: star_Nil)
  next
    assume "\<exists>u \<in> set (f s). t \<in> set (iter n f u)"
    then obtain u where u: "u \<in> set (f s)" "t \<in> set (iter n f u)" by blast
    from f[OF u(1)] obtain p where p: "s = p @ u" "p \<in> A" by blast
    from Suc.IH[OF u(2)] obtain q where q: "u = q @ t" "q \<in> star A" by blast
    have "s = (p @ q) @ t" using p q by simp
    moreover have "p @ q \<in> star A" using p q by (auto intro: star_Cons)
    ultimately show ?thesis by blast
  qed
qed

lemma rmatch_sound: "t \<in> set (rmatch r s) \<Longrightarrow> \<exists>p. s = p @ t \<and> p \<in> lang r"
proof (induction r arbitrary: s t)
  case (Chr c)
  then show ?case by (cases s) (auto split: if_splits)
next
  case (NotIn cs)
  then show ?case by (cases s) (auto split: if_splits)
next
  case (Seq r1 r2)
  from Seq.prems obtain u where u: "u \<in> set (rmatch r1 s)" "t \<in> set (rmatch r2 u)" by auto
  from Seq.IH(1)[OF u(1)] obtain p where p: "s = p @ u" "p \<in> lang r1" by blast
  from Seq.IH(2)[OF u(2)] obtain q where q: "u = q @ t" "q \<in> lang r2" by blast
  have "s = (p @ q) @ t" using p q by simp
  moreover have "p @ q \<in> lang (Seq r1 r2)" using p q by auto
  ultimately show ?case by blast
next
  case (Opt r)
  then show ?case by fastforce
next
  case (Star r)
  then have "t \<in> set (iter (length s) (rmatch r) s)" by simp
  from iter_sound[of "rmatch r" "lang r", OF Star.IH this] show ?case by simp
next
  case (Plus r)
  from Plus.prems obtain u where u: "u \<in> set (rmatch r s)" "t \<in> set (iter (length u) (rmatch r) u)"
    by auto
  from Plus.IH[OF u(1)] obtain p where p: "s = p @ u" "p \<in> lang r" by blast
  from iter_sound[of "rmatch r" "lang r", OF Plus.IH u(2)] obtain q where q: "u = q @ t" "q \<in> star (lang r)"
    by blast
  have "s = (p @ q) @ t" using p q by simp
  moreover have "p @ q \<in> lang (Plus r)" using p q by auto
  ultimately show ?case by blast
qed

lemma regex_test_lang: "regex_test r s \<Longrightarrow> s \<in> lang r"
  using rmatch_sound[of "[]" r s] by (auto simp: regex_test_def)

text \<open>
  The shape of a key that \<open>PROFILE_KEY_REGEX\<close> accepts: a body without a colon, a
  doubled or a final slash, and after it nothing or a colon and a label.
\<close>

definition nosep :: "string \<Rightarrow> bool" where
  "nosep w = (\<forall>c \<in> set w. c \<noteq> CHR ''/'' \<and> c \<noteq> CHR '':'')"

fun no_dslash :: "string \<Rightarrow> bool" where
  "no_dslash (x # y # r) = (\<not> (x = CHR ''/'' \<and> y = CHR ''/'') \<and> no_dslash (y # r))"
| "no_dslash _ = True"

definition body :: "string \<Rightarrow> bool" where
  "body w = (w \<noteq> [] \<and> CHR '':'' \<notin> set w \<and> last w \<noteq> CHR ''/'' \<and> no_dslash w)"

lemma NotIn_nosep: "a \<in> lang (NotIn ''/:'') \<Longrightarrow> a \<noteq> [] \<and> nosep a"
  by (auto simp: nosep_def)

lemma nosep_append: "nosep (u @ w) = (nosep u \<and> nosep w)"
  by (auto simp: nosep_def)

lemma star_nosep: "w \<in> star (lang (NotIn ''/:'')) \<Longrightarrow> nosep w"
proof (induction rule: star.induct)
  case star_Nil
  show ?case by (simp add: nosep_def)
next
  case (star_Cons a w)
  from NotIn_nosep[OF star_Cons.hyps(1)] star_Cons.IH show ?case
    by (simp only: nosep_append)
qed

lemma plus_nosep:
  assumes "w \<in> lang (Plus (NotIn ''/:''))"
  shows "w \<noteq> [] \<and> nosep w"
proof -
  from assms obtain p q where pq: "w = p @ q" "p \<in> lang (NotIn ''/:'')" "q \<in> star (lang (NotIn ''/:''))"
    unfolding lang.simps(6) by blast
  from NotIn_nosep[OF pq(2)] star_nosep[OF pq(3)] pq(1) show ?thesis
    by (simp add: nosep_append)
qed

lemma no_dslash_append:
  "no_dslash u \<Longrightarrow> no_dslash w \<Longrightarrow> u = [] \<or> w = [] \<or> last u \<noteq> CHR ''/'' \<or> hd w \<noteq> CHR ''/''
     \<Longrightarrow> no_dslash (u @ w)"
proof (induction u rule: no_dslash.induct)
  fix x y r
  assume "no_dslash (y # r) \<Longrightarrow> no_dslash w \<Longrightarrow>
       y # r = [] \<or> w = [] \<or> last (y # r) \<noteq> CHR ''/'' \<or> hd w \<noteq> CHR ''/'' \<Longrightarrow> no_dslash ((y # r) @ w)"
    and "no_dslash (x # y # r)" and "no_dslash w"
    and "x # y # r = [] \<or> w = [] \<or> last (x # y # r) \<noteq> CHR ''/'' \<or> hd w \<noteq> CHR ''/''"
  then show "no_dslash ((x # y # r) @ w)" by auto
next
  assume "no_dslash w"
  then show "no_dslash ([] @ w)" by simp
next
  fix v
  assume "no_dslash w" and "[v] = [] \<or> w = [] \<or> last [v] \<noteq> CHR ''/'' \<or> hd w \<noteq> CHR ''/''"
  then show "no_dslash ([v] @ w)" by (cases w) auto
qed

lemma nosep_no_dslash: "nosep n \<Longrightarrow> no_dslash n"
  by (induction n rule: no_dslash.induct) (auto simp: nosep_def)

lemma body_block:
  assumes "u = [] \<or> body u" "n \<noteq> []" "nosep n"
  shows "body (u @ n)" "body (u @ CHR ''/'' # n)"
proof -
  obtain x xs where x: "n = x # xs" using assms(2) by (cases n) auto
  have n1: "no_dslash n" by (rule nosep_no_dslash[OF assms(3)])
  have n2: "hd n \<noteq> CHR ''/''" "last n \<noteq> CHR ''/''" "CHR '':'' \<notin> set n"
    using assms(2,3) by (auto simp: nosep_def)
  have n3: "no_dslash (CHR ''/'' # n)" using n1 n2(1) x by simp
  have u: "no_dslash u" "CHR '':'' \<notin> set u" "u = [] \<or> last u \<noteq> CHR ''/''"
    using assms(1) by (auto simp: body_def)
  have d1: "no_dslash (u @ n)"
    by (rule no_dslash_append[OF u(1) n1]) (use u(3) in blast)
  have d2: "no_dslash (u @ CHR ''/'' # n)"
    by (rule no_dslash_append[OF u(1) n3]) (use u(3) in blast)
  show "body (u @ n)"
    unfolding body_def using d1 u(2) n2 assms(2) by simp
  show "body (u @ CHR ''/'' # n)"
    unfolding body_def using d2 u(2) n2 assms(2) by simp
qed

lemma block_shape:
  "w \<in> lang (Seq (Opt (Chr CHR ''/'')) (Plus (NotIn ''/:''))) \<Longrightarrow>
     \<exists>n. n \<noteq> [] \<and> nosep n \<and> (w = n \<or> w = CHR ''/'' # n)"
proof -
  assume "w \<in> lang (Seq (Opt (Chr CHR ''/'')) (Plus (NotIn ''/:'')))"
  then obtain p q where pq: "w = p @ q" "p \<in> lang (Opt (Chr CHR ''/''))" "q \<in> lang (Plus (NotIn ''/:''))"
    unfolding lang.simps(3) by blast
  from pq(2) have "p = [] \<or> p = ''/''" by simp
  with plus_nosep[OF pq(3)] pq(1) show ?thesis by auto
qed

lemma slash_block_shape:
  "w \<in> lang (Seq (Chr CHR ''/'') (Plus (NotIn ''/:''))) \<Longrightarrow>
     \<exists>n. n \<noteq> [] \<and> nosep n \<and> w = CHR ''/'' # n"
proof -
  assume "w \<in> lang (Seq (Chr CHR ''/'') (Plus (NotIn ''/:'')))"
  then obtain p q where pq: "w = p @ q" "p \<in> lang (Chr CHR ''/'')" "q \<in> lang (Plus (NotIn ''/:''))"
    unfolding lang.simps(3) by blast
  from pq(2) have "p = ''/''" by simp
  with plus_nosep[OF pq(3)] pq(1) show ?thesis by auto
qed

lemma star_blocks_body:
  assumes "\<And>w. w \<in> A \<Longrightarrow> \<exists>n. n \<noteq> [] \<and> nosep n \<and> (w = n \<or> w = CHR ''/'' # n)"
  shows "q \<in> star A \<Longrightarrow> u = [] \<or> body u \<Longrightarrow> u @ q = [] \<or> body (u @ q)"
proof (induction arbitrary: u rule: star.induct)
  case star_Nil
  then show ?case by simp
next
  case (star_Cons a w)
  from assms[OF star_Cons.hyps(1)] obtain n where n: "n \<noteq> []" "nosep n" "a = n \<or> a = CHR ''/'' # n"
    by blast
  have "body (u @ a)" using body_block[OF star_Cons.prems n(1,2)] n(3) by auto
  from star_Cons.IH[of "u @ a"] this show ?case by simp
qed

definition label_ok :: "string \<Rightarrow> bool" where
  "label_ok l = (l = [] \<or> (\<exists>lab. l = CHR '':'' # lab \<and> lab \<noteq> [] \<and> nosep lab))"

lemma key_shape:
  assumes "regex_test PROFILE_KEY_REGEX k"
  shows "\<exists>b l. k = b @ l \<and> body b \<and> label_ok l"
proof -
  from regex_test_lang[OF assms] obtain a r where
    ar: "k = a @ r" "a \<in> lang (Plus (Seq (Opt (Chr CHR ''/'')) (Plus (NotIn ''/:''))))"
        "r \<in> lang (Seq (Star (Seq (Chr CHR ''/'') (Plus (NotIn ''/:''))))
                       (Opt (Seq (Chr CHR '':'') (Plus (NotIn ''/:'')))))"
    unfolding PROFILE_KEY_REGEX_def lang.simps(3)[of "Plus _"] by blast
  from ar(2) obtain g q where
    gq: "a = g @ q" "g \<in> lang (Seq (Opt (Chr CHR ''/'')) (Plus (NotIn ''/:'')))"
        "q \<in> star (lang (Seq (Opt (Chr CHR ''/'')) (Plus (NotIn ''/:''))))"
    unfolding lang.simps(6) by blast
  from ar(3) obtain m l where
    ml: "r = m @ l" "m \<in> star (lang (Seq (Chr CHR ''/'') (Plus (NotIn ''/:''))))"
        "l \<in> lang (Opt (Seq (Chr CHR '':'') (Plus (NotIn ''/:''))))"
    unfolding lang.simps(3)[of "Star _"] lang.simps(5) by blast
  from block_shape[OF gq(2)] obtain n where n: "n \<noteq> []" "nosep n" "g = n \<or> g = CHR ''/'' # n"
    by blast
  have bg: "body g" using body_block[of "[]" n] n by auto
  have "g @ q = [] \<or> body (g @ q)"
    using star_blocks_body[OF block_shape gq(3), of g] bg by simp
  then have ba: "body a" using gq(1) bg by (auto simp: body_def)
  have "a @ m = [] \<or> body (a @ m)"
  proof (rule star_blocks_body[OF _ ml(2)])
    show "\<exists>n. n \<noteq> [] \<and> nosep n \<and> (w = n \<or> w = CHR ''/'' # n)"
      if "w \<in> lang (Seq (Chr CHR ''/'') (Plus (NotIn ''/:'')))" for w
      using slash_block_shape[OF that] by blast
    show "a = [] \<or> body a" using ba by simp
  qed
  then have bam: "body (a @ m)" using ba by (auto simp: body_def)
  have "label_ok l"
  proof (cases "l = []")
    case True
    then show ?thesis by (simp add: label_ok_def)
  next
    case False
    with ml(3) have "l \<in> lang (Seq (Chr CHR '':'') (Plus (NotIn ''/:'')))" by simp
    then obtain p lab where lab: "l = p @ lab" "p \<in> lang (Chr CHR '':'')" "lab \<in> lang (Plus (NotIn ''/:''))"
      unfolding lang.simps(3) by blast
    from lab(2) have "p = '':''" by simp
    with plus_nosep[OF lab(3)] lab(1) show ?thesis by (auto simp: label_ok_def)
  qed
  with bam ar(1) ml(1) show ?thesis
    by (intro exI[of _ "a @ m"] exI[of _ l]) simp
qed

section \<open>Keys that the loop accepts\<close>

lemma trim_last: "trim s \<noteq> [] \<Longrightarrow> \<not> is_space (last (trim s))"
proof -
  assume a: "trim s \<noteq> []"
  let ?r = "dropWhile is_space (rev (dropWhile is_space s))"
  from a have ne: "?r \<noteq> []" by (simp add: trim_def)
  then have "\<not> is_space (hd ?r)" by (rule hd_dropWhile)
  moreover have "last (trim s) = hd ?r" using ne by (simp add: trim_def last_rev)
  ultimately show ?thesis by simp
qed

lemma trim_keeps_last:
  assumes "s \<noteq> []" "\<not> is_space (last s)"
  shows "trim s \<noteq> [] \<and> last (trim s) = last s"
proof -
  obtain xs y where s: "s = xs @ [y]" using assms(1) by (cases s rule: rev_cases) auto
  with assms(2) have y: "\<not> is_space y" by simp
  have d: "dropWhile is_space s = dropWhile is_space xs @ [y]"
    unfolding s using y by (rule dropWhile_append3)
  have "trim s = dropWhile is_space xs @ [y]"
    unfolding trim_def d using y by simp
  then show ?thesis using s by simp
qed

lemma split_on_ne: "split_on c s \<noteq> []"
  by (induction s) (auto split: list.splits)

lemma last_split_on:
  "s \<noteq> [] \<Longrightarrow> last s \<noteq> c \<Longrightarrow> last (split_on c s) \<noteq> [] \<and> last (last (split_on c s)) = last s"
proof (induction s)
  case Nil
  then show ?case by simp
next
  case (Cons x s)
  show ?case
  proof (cases "s = []")
    case True
    with Cons.prems show ?thesis by simp
  next
    case False
    with Cons have IH: "last (split_on c s) \<noteq> [] \<and> last (last (split_on c s)) = last s" by simp
    obtain p ps where p: "split_on c s = p # ps" using split_on_ne[of c s] by (cases "split_on c s") auto
    show ?thesis using IH p False by (cases ps) auto
  qed
qed

lemma split_on_two: "c \<in> set s \<Longrightarrow> \<exists>p0 p1 rest. split_on c s = p0 # p1 # rest"
proof (induction s)
  case Nil
  then show ?case by simp
next
  case (Cons x s)
  obtain p ps where p: "split_on c s = p # ps" using split_on_ne[of c s] by (cases "split_on c s") auto
  show ?case
  proof (cases "x = c")
    case True
    then show ?thesis using p by simp
  next
    case False
    with Cons obtain p0 p1 rest where "split_on c s = p0 # p1 # rest" by auto
    then show ?thesis using False by simp
  qed
qed

lemma key_last:
  assumes "regex_test PROFILE_KEY_REGEX k"
  shows "k \<noteq> [] \<and> last k \<noteq> CHR ''/''"
proof -
  from key_shape[OF assms] obtain b l where bl: "k = b @ l" "body b" "label_ok l" by blast
  show ?thesis
  proof (cases "l = []")
    case True
    with bl show ?thesis by (simp add: body_def)
  next
    case False
    with bl(3) obtain lab where "l = CHR '':'' # lab" "lab \<noteq> []" "nosep lab"
      by (auto simp: label_ok_def)
    with bl(1) show ?thesis by (auto simp: nosep_def)
  qed
qed

text \<open>The constructor \<open>ProfileKey\<close> raises nothing on a key that passed the test.\<close>

lemma valid_key_parses:
  assumes "valid_key (trim key)"
  shows "\<exists>profileKey. ProfileKey (trim key) = Inr profileKey"
proof -
  let ?k = "trim key"
  from assms have ne: "?k \<noteq> []" and re: "regex_test PROFILE_KEY_REGEX ?k"
    by (simp_all add: valid_key_def)
  from key_last[OF re] have sl: "last ?k \<noteq> CHR ''/''" by simp
  from trim_last[OF ne] have sp: "\<not> is_space (last ?k)" .
  let ?pieces = "split_on CHR ''/'' ?k"
  from last_split_on[OF ne sl] have lp: "last ?pieces \<noteq> []" "last (last ?pieces) = last ?k"
    by simp_all
  from trim_keeps_last[OF lp(1)] sp lp(2) have "trim (last ?pieces) \<noteq> []" by simp
  moreover have "last ?pieces \<in> set ?pieces" using split_on_ne by simp
  ultimately have "trim (last ?pieces) \<in> set (filter (\<lambda>p. p \<noteq> []) (map trim ?pieces))"
    by simp
  then have pne: "filter (\<lambda>p. p \<noteq> []) (map trim ?pieces) \<noteq> []" by (metis empty_iff empty_set)
  show ?thesis
  proof (cases "CHR '':'' \<in> set (last (filter (\<lambda>p. p \<noteq> []) (map trim ?pieces)))")
    case True
    from split_on_two[OF True] obtain p0 p1 rest where
      "split_on CHR '':'' (last (filter (\<lambda>p. p \<noteq> []) (map trim ?pieces))) = p0 # p1 # rest" by blast
    with True pne show ?thesis by (simp add: ProfileKey_def)
  next
    case False
    with pne show ?thesis by (simp add: ProfileKey_def)
  qed
qed

section \<open>Properties of the loop over the call log\<close>

lemma run_append:
  "run (xs @ ys) s =
     (case run xs s of
        (l, Inl e) \<Rightarrow> (l, Inl e)
      | (l, Inr s') \<Rightarrow> (case run ys s' of (l', r) \<Rightarrow> (l @ l', r)))"
  by (induction xs arbitrary: s) (auto split: prod.splits sum.splits)

text \<open>
  Two states of the loop with the same stack and the same events differ at most in
  \<open>absoluteStartTime\<close>, which the loop writes and never reads.
\<close>

definition same_tree :: "pstate \<Rightarrow> pstate \<Rightarrow> bool" where
  "same_tree a b = (stack a = stack b \<and> events a = events b)"

lemma process_call_same_tree:
  assumes "same_tree s s'"
  shows "fst (process_call c s) = fst (process_call c s') \<and>
         rel_sum (=) same_tree (snd (process_call c s)) (snd (process_call c s'))"
  using assms
  by (cases c)
     (auto simp: same_tree_def process_call_def process_start_def process_end_def Let_def
           split: sum.splits option.splits prod.splits)

lemma run_same_tree:
  "same_tree s s' \<Longrightarrow> fst (run cs s) = fst (run cs s') \<and>
         rel_sum (=) same_tree (snd (run cs s)) (snd (run cs s'))"
proof (induction cs arbitrary: s s')
  case Nil
  then show ?case by simp
next
  case (Cons c cs)
  from process_call_same_tree[OF Cons.prems, of c]
  have h: "fst (process_call c s) = fst (process_call c s')"
     "rel_sum (=) same_tree (snd (process_call c s)) (snd (process_call c s'))" by auto
  show ?case
  proof (cases "snd (process_call c s)")
    case (Inl e)
    with h show ?thesis
      by (cases "process_call c s"; cases "process_call c s'") (auto elim: rel_sum.cases)
  next
    case (Inr a)
    with h obtain b where b: "snd (process_call c s') = Inr b" "same_tree a b"
      by (auto elim: rel_sum.cases)
    from Cons.IH[OF b(2)] Inr b h(1) show ?thesis
      by (cases "process_call c s"; cases "process_call c s'") (auto split: prod.splits)
  qed
qed

lemma processCalls_same_tree:
  assumes "same_tree s s'"
  shows "fst (processCalls cs s) = fst (processCalls cs s') \<and>
         map_sum id snd (snd (processCalls cs s)) = map_sum id snd (snd (processCalls cs s'))"
proof -
  from run_same_tree[OF assms, of cs]
  have h: "fst (run cs s) = fst (run cs s')"
     "rel_sum (=) same_tree (snd (run cs s)) (snd (run cs s'))" by auto
  show ?thesis
  proof (cases "snd (run cs s)")
    case (Inl e)
    with h show ?thesis
      by (cases "run cs s"; cases "run cs s'") (auto simp: processCalls_def elim: rel_sum.cases)
  next
    case (Inr a)
    with h obtain b where b: "snd (run cs s') = Inr b" "same_tree a b"
      by (auto elim: rel_sum.cases)
    with Inr h(1) show ?thesis
      by (cases "run cs s"; cases "run cs s'")
         (auto simp: processCalls_def same_tree_def split: list.splits prod.splits sum.splits)
  qed
qed

text \<open>What a call that the loop drops leaves behind.\<close>

lemma dropped_call:
  assumes step: "process_call c s = ([msg], Inr s')" and st: "same_tree s' s"
    and pre: "run pre s0 = (l, Inr s)"
  shows "fst (processCalls (pre @ c # post) s0) =
           l @ msg # drop (length l) (fst (processCalls (pre @ post) s0)) \<and>
         map_sum id snd (snd (processCalls (pre @ c # post) s0)) =
           map_sum id snd (snd (processCalls (pre @ post) s0))"
proof -
  have r1: "run (pre @ c # post) s0 = (l @ msg # fst (run post s'), snd (run post s'))"
    using pre step by (simp add: run_append split: prod.splits)
  have r2: "run (pre @ post) s0 = (l @ fst (run post s), snd (run post s))"
    using pre by (simp add: run_append split: prod.splits)
  from run_same_tree[OF st, of post]
  have h: "fst (run post s') = fst (run post s)"
     "rel_sum (=) same_tree (snd (run post s')) (snd (run post s))" by auto
  show ?thesis
  proof (cases "snd (run post s)")
    case (Inl e)
    with h show ?thesis
      unfolding processCalls_def r1 r2 by (auto elim!: rel_sum.cases)
  next
    case (Inr b)
    with h obtain a where a: "snd (run post s') = Inr a" "same_tree a b"
      by (auto elim: rel_sum.cases)
    show ?thesis
      unfolding processCalls_def r1 r2 using a Inr h(1)
      by (auto simp: same_tree_def split: list.splits prod.splits sum.splits)
  qed
qed

lemma find_from_None:
  "(\<forall>i. 0 < i \<and> i \<le> n \<longrightarrow> toString (p_profileKey (info (st ! i))) \<noteq> str) \<Longrightarrow> find_from n st str = None"
  by (induction n) auto

lemma find_from_Some:
  "find_from n st str = Some i \<Longrightarrow> 0 < i \<and> i \<le> n \<and> toString (p_profileKey (info (st ! i))) = str
     \<and> (\<forall>j. i < j \<and> j \<le> n \<longrightarrow> toString (p_profileKey (info (st ! j))) \<noteq> str)"
proof (induction n)
  case 0
  then show ?case by simp
next
  case (Suc n)
  then show ?case by (auto split: if_splits simp: le_Suc_eq)
qed

lemma ProfileKey_root:
  "ProfileKey k = Inr profileKey \<Longrightarrow> k_root profileKey = (take 1 k = ''/'')"
  by (cases k) (auto simp: ProfileKey_def Let_def split: if_splits list.splits)

lemma splice1_root:
  "0 < i \<Longrightarrow> i < length st \<Longrightarrow>
     splice1 i st ! 0 = st ! 0 \<and> (splice1 i st)[0 := r] = r # splice1 (i - 1) (tl st)"
  by (cases st; cases i) (auto simp: splice1_def)

lemma splice1_below:
  assumes "0 < i" "i < length st"
  shows "splice1 i st ! (i - 1) = st ! (i - 1) \<and>
         (splice1 i st)[i - 1 := r] = take (i - 1) st @ r # drop (Suc i) st"
proof -
  obtain j where j: "i = Suc j" using assms(1) by (cases i) auto
  have t: "take (Suc j) st = take j st @ [st ! j]"
    using assms(2) j by (simp add: take_Suc_conv_app_nth)
  have l: "length (take j st) = j" using assms(2) j by simp
  show ?thesis
    unfolding splice1_def j t using l
    by (simp add: nth_append list_update_append)
qed

section \<open>Evaluating the loop on concrete keys\<close>

lemmas key_defs = trim_def is_space_def valid_key_def regex_test_def PROFILE_KEY_REGEX_def
  ProfileKey_def toString_def

lemmas step_defs = processCalls_def process_call_def process_start_def process_end_def
  initial_def root_key_def new_Profile_def init_info_def Profile_set_def Profile_add_def
  set_info_def set_closed_def find_open_def splice1_def Let_def time_or_def mix_def has_in_def
  Object_prototype_def

lemma key_a_warm:
  "trim ''a:warm'' = ''a:warm''" "valid_key ''a:warm''"
  "ProfileKey ''a:warm'' = Inr \<lparr>k_root = False, k_profiles = [''a''], k_duration = Some ''warm''\<rparr>"
  by (simp_all add: key_defs)

lemma key_a_cold:
  "trim ''a:cold'' = ''a:cold''" "valid_key ''a:cold''"
  "ProfileKey ''a:cold'' = Inr \<lparr>k_root = False, k_profiles = [''a''], k_duration = Some ''cold''\<rparr>"
  by (simp_all add: key_defs)

lemma key_r:
  "trim ''/r'' = ''/r''" "valid_key ''/r''"
  "ProfileKey ''/r'' = Inr \<lparr>k_root = True, k_profiles = [''r''], k_duration = None\<rparr>"
  by (simp_all add: key_defs)

lemma key_r_a:
  "trim ''/r/a'' = ''/r/a''" "valid_key ''/r/a''"
  "ProfileKey ''/r/a'' = Inr \<lparr>k_root = True, k_profiles = [''r'', ''a''], k_duration = None\<rparr>"
  by (simp_all add: key_defs)

lemma key_b:
  "trim ''b'' = ''b''" "valid_key ''b''"
  "ProfileKey ''b'' = Inr \<lparr>k_root = False, k_profiles = [''b''], k_duration = None\<rparr>"
  by (simp_all add: key_defs)

lemma key_a_slash_slash_b:
  "trim ''a//b'' = ''a//b''" "\<not> valid_key ''a//b''"
  by (simp_all add: key_defs)

text \<open>The state of the loop after a log that raised nothing, on a fresh instance.\<close>

definition state_after :: "call list \<Rightarrow> pstate" where
  "state_after calls =
     (case run calls (initial [] None) of (l, Inr s) \<Rightarrow> s | (l, Inl e) \<Rightarrow> initial [] None)"

lemma state_r_b:
  "state_after [Start ''/r'' (Ms 1) None, Start ''b'' (Ms 2) None] =
     \<lparr>stack = [new_Profile root_key,
        Profile ((init_info True \<lparr>k_root = True, k_profiles = [''r''], k_duration = None\<rparr>)\<lparr>p_startTime := Some (Ms 1)\<rparr>) [],
        Profile ((init_info True \<lparr>k_root = False, k_profiles = [''b''], k_duration = None\<rparr>)\<lparr>p_startTime := Some (Ms 2)\<rparr>) []],
      events = [], absoluteStartTime = Some (Ms 1)\<rparr>"
  by (simp add: state_after_def key_r key_b step_defs get_def js_or_def mix_overwrite_def)

lemmas eval_defs = step_defs toString_def get_def js_or_def mix_overwrite_def

section \<open>The scenario of a span with one child\<close>

text \<open>
  Recording a list of calls on an instance, and the instance after the four calls of
  the scenario, made at the clock readings \<open>T\<close>, \<open>T\<close>, \<open>T + 5\<close> and \<open>T + 10\<close> of a browser.
\<close>

definition record_all :: "method_call list \<Rightarrow> winstance \<Rightarrow> winstance" where
  "record_all ms inst = fold (\<lambda>m i. snd (invoke m i)) ms inst"

definition scenario :: "rat \<Rightarrow> winstance" where
  "scenario T = record_all [CallStart ''/r'' None (Ms T), CallStart ''/r/a'' None (Ms T),
       CallEnd ''/r/a'' None (Ms (T + 5)), CallEnd ''/r'' None (Ms (T + 10))] (new_Waterfall None)"

lemma scenario_calls:
  "i_calls (scenario T) = [Start ''/r'' (Ms T) None, Start ''/r/a'' (Ms T) None,
       End ''/r/a'' (Ms (T + 5)) None, End ''/r'' (Ms (T + 10)) None]"
  "i_waterfall (scenario T) = None" "i_config (scenario T) = None" "i_headers (scenario T) = False"
  by (simp_all add: scenario_def record_all_def invoke_def record_call_def new_Waterfall_def)

definition scenario_tree :: "rat \<Rightarrow> profile" where
  "scenario_tree T =
     Profile (init_info True root_key)
       [(''r'', [Profile ((init_info True \<lparr>k_root = True, k_profiles = [''r'', ''a''], k_duration = None\<rparr>)
                   \<lparr>p_startTime := Some (Ms T), p_endTime := Some (Ms (T + 10)), p_closed := True\<rparr>)
                  [(''a'', [Profile ((init_info False \<lparr>k_root = False, k_profiles = [''a''], k_duration = None\<rparr>)
                     \<lparr>p_startTime := Some (Ms T), p_endTime := Some (Ms (T + 5))\<rparr>) []])]])]"

lemma scenario_processCalls:
  assumes "0 < T"
  shows "\<exists>s. processCalls (i_calls (scenario T)) (initial [] None) = ([], Inr (s, scenario_tree T))
          \<and> absoluteStartTime s = Some (Ms T) \<and> events s = []"
  using assms
  by (simp add: scenario_calls scenario_tree_def key_r key_r_a eval_defs add.simps)


lemma scenario_createRows:
  assumes "0 < T"
  shows "createRows True (Some (Ms T)) (scenario_tree T) 0 =
     Inr (Row [] [new_rdur ''Elapsed Time'' (Num 10)]
           (Some [Row [(''Name'', VStr ''r'')] [new_rdur ''Elapsed Time'' (Num 10)]
              (Some [Row [(''Name'', VStr ''a'')] [new_rdur ''Elapsed Time'' (Num 5)] None
                       (Num 0) (Num 5) NUndef NUndef])
              (Num 0) (Num 10) NUndef NUndef])
           (Num 0) (Num 10) NUndef NUndef, 10)"
  using assms
  by (simp add: scenario_tree_def createRows.simps normalize_def init_info_def root_key_def
        with_Name_def get_def js_or_def)

lemma scenario_computeStats:
  "\<exists>l stats a b c d.
     computeStats h None units
       (Some [Row [(''Name'', VStr ''r'')] [new_rdur ''Elapsed Time'' (Num 10)]
              (Some [Row [(''Name'', VStr ''a'')] [new_rdur ''Elapsed Time'' (Num 5)] None
                       (Num 0) (Num 5) NUndef NUndef])
              (Num 0) (Num 10) NUndef NUndef]) =
     (l, Inr (Some [Row [(''Name'', VStr ''r'')] [new_rdur ''Elapsed Time'' (Num 10)]
              (Some [Row [(''Name'', VStr ''a'')] [new_rdur ''Elapsed Time'' (Num 5)] None
                       (Num 0) (Num 5) a b])
              (Num 0) (Num 10) c d], stats))"
  by (simp add: computeStats_def getStats.simps insertion_sort_def count_name_def
        to_string_def get_def js_or_def duration_stat_def new_rdur_def addStat_def
        executeExpression_def pushStat_def Object_prototype_def Let_def subject_of_def
        profile_type_def profile_startMs_def profile_endMs_def
        split: prod.splits)


definition durations_of :: "row \<Rightarrow> (string \<times> jsnum) list" where
  "durations_of r = map (\<lambda>d. (rd_type d, rd_duration d)) (r_durations r)"

lemma scenario_getGui:
  assumes "h_isBrowser h" and "0 < T"
  shows "\<exists>l w inst' r a.
     getGui h (scenario T) = (l, Inr (w, inst')) \<and>
     w_rows w = Some [r] \<and> get (r_data r) ''Name'' = VStr ''r'' \<and>
     durations_of r = [(''Elapsed Time'', Num 10)] \<and>
     r_details r = Some [a] \<and> get (r_data a) ''Name'' = VStr ''a'' \<and>
     durations_of a = [(''Elapsed Time'', Num 5)] \<and> r_details a = None"
proof -
  from scenario_processCalls[OF assms(2)] obtain s where
    s: "processCalls (i_calls (scenario T)) (initial [] None) = ([], Inr (s, scenario_tree T))"
       "absoluteStartTime s = Some (Ms T)" "events s = []" by blast
  from scenario_computeStats[of h "''ms''"] obtain l stats a b c d where
    cs: "computeStats h None ''ms''
       (Some [Row [(''Name'', VStr ''r'')] [new_rdur ''Elapsed Time'' (Num 10)]
              (Some [Row [(''Name'', VStr ''a'')] [new_rdur ''Elapsed Time'' (Num 5)] None
                       (Num 0) (Num 5) NUndef NUndef])
              (Num 0) (Num 10) NUndef NUndef]) =
     (l, Inr (Some [Row [(''Name'', VStr ''r'')] [new_rdur ''Elapsed Time'' (Num 10)]
              (Some [Row [(''Name'', VStr ''a'')] [new_rdur ''Elapsed Time'' (Num 5)] None
                       (Num 0) (Num 5) a b])
              (Num 0) (Num 10) c d], stats))" by blast
  have dis: "i_calls (disable (scenario T)) = i_calls (scenario T)" by (simp add: disable_def)
  show ?thesis
    unfolding getGui_def
    using assms(1) s cs scenario_createRows[OF assms(2)]
    by (simp add: scenario_calls(2,3,4) dis durations_of_def new_rdur_def get_def Let_def)
qed

text \<open>An environment for closed examples; nothing stated of the examples depends on its functions.\<close>

definition browser_host :: host where
  "browser_host = \<lparr>h_isBrowser = True, h_timeToMs = (\<lambda>s. NaN), h_msTimeToString = (\<lambda>x n. []),
     h_numberToString = (\<lambda>q. []), h_eval = (\<lambda>s. Inr VUndefined), h_substitute = (\<lambda>v e x. e),
     h_escape = (\<lambda>s. s)\<rparr>"

section \<open>Instances after finalization\<close>

text \<open>A sequence of method calls: the lines logged and the instance afterwards.\<close>

fun invoke_all :: "method_call list \<Rightarrow> winstance \<Rightarrow> string list \<times> winstance" where
  "invoke_all [] inst = ([], inst)"
| "invoke_all (m # ms) inst =
     (case invoke m inst of (l, inst') \<Rightarrow>
        (case invoke_all ms inst' of (l', inst'') \<Rightarrow> (l @ l', inst'')))"

text \<open>
  The instances that the constructor, the methods and \<open>getGui\<close> produce.
\<close>

inductive reachable :: "host \<Rightarrow> winstance \<Rightarrow> bool" for h :: host where
  reachable_new: "reachable h (new_Waterfall cfg)"
| reachable_invoke: "reachable h inst \<Longrightarrow> reachable h (snd (invoke m inst))"
| reachable_getGui: "reachable h inst \<Longrightarrow> getGui h inst = (l, Inr (w, inst')) \<Longrightarrow> reachable h inst'"

definition disabled :: "winstance \<Rightarrow> bool" where
  "disabled inst = (i_configure inst = Disabled \<and> i_start inst = Disabled \<and> i_end inst = Disabled
     \<and> i_event inst = Disabled \<and> i_clear inst = Disabled \<and> i_pause inst = Disabled
     \<and> i_resume inst = Disabled)"

lemma invoke_disabled: "disabled inst \<Longrightarrow> invoke m inst = ([disabled_line], inst)"
  by (cases m) (simp_all add: disabled_def invoke_def record_call_def)

lemma invoke_waterfall: "i_waterfall (snd (invoke m inst)) = i_waterfall inst"
  by (cases m)
     (auto simp: invoke_def record_call_def split: impl.splits option.splits prod.splits)

lemma getGui_first:
  assumes "getGui h inst = (l, Inr (w, inst'))" "i_waterfall inst = None"
  shows "disabled inst' \<and> i_waterfall inst' = Some w"
  using assms
  by (auto simp: getGui_def disabled_def disable_def Let_def split: prod.splits sum.splits)

lemma getGui_again:
  assumes "i_waterfall inst = Some w"
  shows "getGui h inst = ([], Inr (w, inst))"
  using assms by (simp add: getGui_def)

lemma reachable_disabled: "reachable h inst \<Longrightarrow> i_waterfall inst \<noteq> None \<Longrightarrow> disabled inst"
proof (induction rule: reachable.induct)
  case (reachable_new cfg)
  then show ?case by (simp add: new_Waterfall_def)
next
  case (reachable_invoke inst m)
  from reachable_invoke.prems have "i_waterfall inst \<noteq> None" by (simp add: invoke_waterfall)
  with reachable_invoke.IH have "disabled inst" by simp
  then show ?case by (simp add: invoke_disabled)
next
  case (reachable_getGui inst l w inst')
  show ?case
  proof (cases "i_waterfall inst")
    case None
    with getGui_first[OF reachable_getGui.hyps(2)] show ?thesis by simp
  next
    case (Some w0)
    with getGui_again[OF Some, of h] reachable_getGui.hyps(2) reachable_getGui.IH
    show ?thesis by simp
  qed
qed

lemma invoke_all_disabled:
  "disabled inst \<Longrightarrow> invoke_all ms inst = (replicate (length ms) disabled_line, inst)"
  by (induction ms) (simp_all add: invoke_disabled)

section \<open>Properties of the statistics\<close>

lemma pushStat_changes: "pushStat type startMs endMs rootName st \<noteq> Inr st"
proof
  assume a: "pushStat type startMs endMs rootName st = Inr st"
  show False
  proof (cases "map_of (ss_stats st) type")
    case None
    with a have "ss_stats st @ [(type, [\<lparr>sv_startTime = startMs, sv_endTime = endMs, sv_root = rootName\<rparr>])] = ss_stats st"
      by (auto simp: pushStat_def Let_def split: if_splits dest: arg_cong[where f = ss_stats])
    then show False by simp
  next
    case (Some statArray)
    with a have "put type (statArray @ [\<lparr>sv_startTime = startMs, sv_endTime = endMs, sv_root = rootName\<rparr>]) (ss_stats st) = ss_stats st"
      by (auto simp: pushStat_def Let_def dest: arg_cong[where f = ss_stats])
    then have "map_of (put type (statArray @ [\<lparr>sv_startTime = startMs, sv_endTime = endMs, sv_root = rootName\<rparr>]) (ss_stats st)) type = Some statArray"
      using Some by simp
    moreover have "map_of (put k v xs) k = Some v" for k :: string and v :: "stat_value list" and xs
      by (induction xs) auto
    ultimately show False by simp
  qed
qed









section \<open>Clean keys\<close>













lemma piece_no_sep: "p \<in> set (split_on c k) \<Longrightarrow> c \<notin> set p"
proof (induction k arbitrary: p)
  case Nil
  then show ?case by simp
next
  case (Cons x k)
  obtain q qs where q: "split_on c k = q # qs"
    using split_on_ne[of c k] by (cases "split_on c k") auto
  from Cons q show ?case by (auto split: if_splits)
qed








section \<open>Calls that are dropped\<close>

text \<open>
  C6. A start or end call whose key fails the test of the loop (the trimmed key is
  empty or does not match \<open>PROFILE_KEY_REGEX\<close>) logs one error line and leaves the
  stack and the events as they are: nothing is pushed and no node is created. The log
  with the call removed yields the same root profile, or the same exception, and the
  same other log lines.
\<close>

theorem invalid_key_dropped:
  assumes "\<not> valid_key (trim key)"
    and "c = Start key t d \<or> c = End key t d"
    and "run pre s0 = (l, Inr s)"
  shows "\<exists>s'. process_call c s = ([error_line ''Invalid profile.'' (trim key)], Inr s') \<and>
           stack s' = stack s \<and> events s' = events s \<and>
           fst (processCalls (pre @ c # post) s0) =
             l @ error_line ''Invalid profile.'' (trim key) #
               drop (length l) (fst (processCalls (pre @ post) s0)) \<and>
           map_sum id snd (snd (processCalls (pre @ c # post) s0)) =
             map_sum id snd (snd (processCalls (pre @ post) s0))"
proof -
  obtain s' where s': "process_call c s = ([error_line ''Invalid profile.'' (trim key)], Inr s')"
    "stack s' = stack s" "events s' = events s"
    using assms(1,2) by (auto simp: process_call_def Let_def)
  from dropped_call[OF s'(1) _ assms(3), of post] s'(2,3) s'(1) show ?thesis
    by (auto simp: same_tree_def)
qed

theorem invalid_key_dropped_witness:
  "\<not> valid_key (trim ''a//b'') \<and>
   (\<exists>s'. process_call (Start ''a//b'' (Ms 1) None) (initial [] None) =
           ([error_line ''Invalid profile.'' ''a//b''], Inr s') \<and>
         stack s' = stack (initial [] None) \<and> events s' = events (initial [] None)) \<and>
   fst (processCalls [Start ''a//b'' (Ms 1) None, Start ''b'' (Ms 2) None, End ''b'' (Ms 3) None]
          (initial [] None)) =
     error_line ''Invalid profile.'' ''a//b'' #
       fst (processCalls [Start ''b'' (Ms 2) None, End ''b'' (Ms 3) None] (initial [] None)) \<and>
   map_sum id snd (snd (processCalls
       [Start ''a//b'' (Ms 1) None, Start ''b'' (Ms 2) None, End ''b'' (Ms 3) None] (initial [] None))) =
     map_sum id snd (snd (processCalls
       [Start ''b'' (Ms 2) None, End ''b'' (Ms 3) None] (initial [] None)))"
proof -
  have h1: "\<not> valid_key (trim ''a//b'')" by (simp add: key_a_slash_slash_b)
  have h2: "Start ''a//b'' (Ms 1) None = Start ''a//b'' (Ms 1) None \<or>
            Start ''a//b'' (Ms 1) None = End ''a//b'' (Ms 1) None" by simp
  have h3: "run [] (initial [] None) = ([], Inr (initial [] None))" by simp
  from invalid_key_dropped[OF h1 h2 h3, of "[Start ''b'' (Ms 2) None, End ''b'' (Ms 3) None]"]
  have "\<exists>s'. process_call (Start ''a//b'' (Ms 1) None) (initial [] None) =
           ([error_line ''Invalid profile.'' ''a//b''], Inr s') \<and>
         stack s' = stack (initial [] None) \<and> events s' = events (initial [] None) \<and>
         fst (processCalls [Start ''a//b'' (Ms 1) None, Start ''b'' (Ms 2) None, End ''b'' (Ms 3) None]
          (initial [] None)) =
           error_line ''Invalid profile.'' ''a//b'' #
           fst (processCalls [Start ''b'' (Ms 2) None, End ''b'' (Ms 3) None] (initial [] None)) \<and>
         map_sum id snd (snd (processCalls
           [Start ''a//b'' (Ms 1) None, Start ''b'' (Ms 2) None, End ''b'' (Ms 3) None] (initial [] None))) =
         map_sum id snd (snd (processCalls
           [Start ''b'' (Ms 2) None, End ''b'' (Ms 3) None] (initial [] None)))"
    by (simp add: key_a_slash_slash_b)
  then show ?thesis using h1 by blast
qed

text \<open>
  C3. An end call for which no open profile above the root has the same canonical key
  raises nothing: it logs one error line and leaves the state of the loop unchanged,
  so the calls after it are processed as they would be without it.
\<close>

theorem unmatched_end_dropped:
  assumes "\<forall>profileKey i. ProfileKey (trim key) = Inr profileKey \<longrightarrow> 0 < i \<longrightarrow> i < length (stack s) \<longrightarrow>
             toString (p_profileKey (info (stack s ! i))) \<noteq> toString profileKey"
    and "run pre s0 = (l, Inr s)"
  shows "\<exists>msg. process_call (End key t d) s = ([msg], Inr s) \<and>
           fst (processCalls (pre @ End key t d # post) s0) =
             l @ msg # drop (length l) (fst (processCalls (pre @ post) s0)) \<and>
           snd (processCalls (pre @ End key t d # post) s0) = snd (processCalls (pre @ post) s0)"
proof -
  have s1: "s\<lparr>absoluteStartTime := if absoluteStartTime s \<noteq> None then absoluteStartTime s else None\<rparr> = s"
    by simp
  have "\<exists>msg. process_call (End key t d) s = ([msg], Inr s)"
  proof (cases "valid_key (trim key)")
    case False
    then show ?thesis by (simp add: process_call_def Let_def s1)
  next
    case True
    from valid_key_parses[OF True] obtain pk where pk: "ProfileKey (trim key) = Inr pk" by blast
    have "find_open (stack s) (toString pk) = None"
      unfolding find_open_def using assms(1) pk by (intro find_from_None) auto
    then show ?thesis using True pk by (simp add: process_call_def process_end_def Let_def s1)
  qed
  then obtain msg where msg: "process_call (End key t d) s = ([msg], Inr s)" by blast
  have r1: "run (pre @ End key t d # post) s0 = (l @ msg # fst (run post s), snd (run post s))"
    using assms(2) msg by (simp add: run_append split: prod.splits)
  have r2: "run (pre @ post) s0 = (l @ fst (run post s), snd (run post s))"
    using assms(2) by (simp add: run_append split: prod.splits)
  have "fst (processCalls (pre @ End key t d # post) s0) =
             l @ msg # drop (length l) (fst (processCalls (pre @ post) s0)) \<and>
        snd (processCalls (pre @ End key t d # post) s0) = snd (processCalls (pre @ post) s0)"
    unfolding processCalls_def r1 r2
    by (auto split: list.splits prod.splits sum.splits)
  with msg show ?thesis by blast
qed

theorem unmatched_end_dropped_witness:
  "find_open (stack (state_after [Start ''/r'' (Ms 1) None, Start ''b'' (Ms 2) None])) ''a:warm'' = None \<and>
   (\<exists>msg. process_call (End ''a:warm'' (Ms 3) None)
             (state_after [Start ''/r'' (Ms 1) None, Start ''b'' (Ms 2) None]) =
           ([msg], Inr (state_after [Start ''/r'' (Ms 1) None, Start ''b'' (Ms 2) None])) \<and>
     snd (processCalls [Start ''/r'' (Ms 1) None, Start ''b'' (Ms 2) None, End ''a:warm'' (Ms 3) None,
                        End ''b'' (Ms 4) None] (initial [] None)) =
     snd (processCalls [Start ''/r'' (Ms 1) None, Start ''b'' (Ms 2) None,
                        End ''b'' (Ms 4) None] (initial [] None)))"
proof -
  let ?pre = "[Start ''/r'' (Ms 1) None, Start ''b'' (Ms 2) None]"
  let ?s = "state_after ?pre"
  have h1: "\<forall>profileKey i. ProfileKey (trim ''a:warm'') = Inr profileKey \<longrightarrow> 0 < i \<longrightarrow>
      i < length (stack ?s) \<longrightarrow>
      toString (p_profileKey (info (stack ?s ! i))) \<noteq> toString profileKey"
    by (auto simp: key_a_warm state_r_b toString_def init_info_def less_Suc_eq numeral_3_eq_3)
  have h2: "run ?pre (initial [] None) = ([], Inr ?s)"
    by (simp add: state_r_b key_r key_b eval_defs)
  have h3: "find_open (stack ?s) ''a:warm'' = None"
    by (simp add: state_r_b find_open_def toString_def init_info_def new_Profile_def root_key_def)
  from unmatched_end_dropped[OF h1 h2, of "Ms 3" None "[End ''b'' (Ms 4) None]"] h3
  show ?thesis by auto
qed

section \<open>Where a closed profile is merged\<close>

text \<open>
  C2. An end call whose key parses and matches the open profile at index \<open>i\<close> of the
  stack closes that profile and merges it into the bottom of the stack (the synthetic
  root) when the trimmed key begins with a slash, however many profiles are open above
  or below it, and into the profile at index \<open>i - 1\<close> otherwise. All other entries of
  the stack stay as they are.
\<close>

theorem end_merges_into_parent:
  assumes "valid_key (trim key)"
    and "ProfileKey (trim key) = Inr profileKey"
    and "find_open (stack s) (toString profileKey) = Some i"
    and "Profile_set (stack s ! i) \<lparr>s_startTime = None, s_endTime = Some t, s_data = d\<rparr> = Inr p"
  shows "0 < i \<and> i < length (stack s) \<and>
         process_call (End key t d) s =
           ([], if take 1 (trim key) = ''/''
                then (case Profile_add (stack s ! 0) (set_closed p) of
                        Inl e \<Rightarrow> Inl e
                      | Inr root' \<Rightarrow> Inr (s\<lparr>stack := root' # splice1 (i - 1) (tl (stack s))\<rparr>))
                else (case Profile_add (stack s ! (i - 1)) (set_closed p) of
                        Inl e \<Rightarrow> Inl e
                      | Inr parent \<Rightarrow>
                          Inr (s\<lparr>stack := take (i - 1) (stack s) @ parent # drop (Suc i) (stack s)\<rparr>)))"
proof -
  have s1: "s\<lparr>absoluteStartTime := if absoluteStartTime s \<noteq> None then absoluteStartTime s else None\<rparr> = s"
    by simp
  from find_from_Some[OF assms(3)[unfolded find_open_def]]
  have i: "0 < i" "i < length (stack s)" by auto
  have root: "k_root profileKey = (take 1 (trim key) = ''/'')"
    by (rule ProfileKey_root[OF assms(2)])
  show ?thesis
  proof (cases "take 1 (trim key) = ''/''")
    case True
    with root have "k_root profileKey" by simp
    then show ?thesis
      using assms i True splice1_root[OF i]
      by (simp add: process_call_def process_end_def Let_def s1 split: sum.splits)
  next
    case False
    with root have "\<not> k_root profileKey" by simp
    then show ?thesis
      using assms i False splice1_below[OF i]
      by (simp add: process_call_def process_end_def Let_def s1 split: sum.splits)
  qed
qed

theorem end_merges_into_parent_witness:
  "valid_key (trim ''/r'') \<and>
   find_open (stack (state_after [Start ''/r'' (Ms 1) None, Start ''b'' (Ms 2) None])) ''/r'' = Some 1 \<and>
   length (stack (state_after [Start ''/r'' (Ms 1) None, Start ''b'' (Ms 2) None])) = 3 \<and>
   (\<exists>root' s'. process_call (End ''/r'' (Ms 3) None)
        (state_after [Start ''/r'' (Ms 1) None, Start ''b'' (Ms 2) None]) = ([], Inr s') \<and>
      stack s' = [root', stack (state_after [Start ''/r'' (Ms 1) None, Start ''b'' (Ms 2) None]) ! 2] \<and>
      map fst (children root') = [''r''])"
proof -
  let ?s = "state_after [Start ''/r'' (Ms 1) None, Start ''b'' (Ms 2) None]"
  let ?pk = "\<lparr>k_root = True, k_profiles = [''r''], k_duration = None\<rparr>"
  let ?p = "Profile ((init_info True ?pk)\<lparr>p_startTime := Some (Ms 1), p_endTime := Some (Ms 3)\<rparr>) []"
  have h1: "valid_key (trim ''/r'')" by (simp add: key_r)
  have h2: "ProfileKey (trim ''/r'') = Inr ?pk" by (simp add: key_r)
  have h3: "find_open (stack ?s) (toString ?pk) = Some 1"
    by (simp add: state_r_b find_open_def toString_def init_info_def new_Profile_def root_key_def)
  have h4: "Profile_set (stack ?s ! 1) \<lparr>s_startTime = None, s_endTime = Some (Ms 3), s_data = None\<rparr> = Inr ?p"
    by (simp add: state_r_b step_defs get_def js_or_def mix_overwrite_def)
  from end_merges_into_parent[OF h1 h2 h3 h4] h1 h3 show ?thesis
    by (simp add: key_r state_r_b step_defs add.simps toString_def get_def js_or_def mix_overwrite_def)
qed

section \<open>Duration labels\<close>

text \<open>
  C4. The trace \<open>start("a:warm")\<close>, \<open>end("a:warm")\<close>, \<open>start("a:cold")\<close>,
  \<open>end("a:cold")\<close>, with any times and payloads, on any instance that has not been
  finalized, logs nothing and leaves the root with exactly one child list, for the id
  \<open>a\<close>, holding exactly one profile, whose durations are \<open>warm\<close> and \<open>cold\<close>.
\<close>

theorem sublabels_merge_into_one_node:
  "case processCalls [Start ''a:warm'' t1 d1, End ''a:warm'' t2 d2,
                      Start ''a:cold'' t3 d3, End ''a:cold'' t4 d4] (initial evs t0) of
     (l, Inr (s, rootProfile)) \<Rightarrow>
       l = [] \<and>
       (case children rootProfile of
          [(i, [p])] \<Rightarrow> i = ''a'' \<and> p_id (info p) = ''a'' \<and>
             map_option (map fst) (p_durations (info p)) = Some [''warm'', ''cold'']
        | _ \<Rightarrow> False)
   | _ \<Rightarrow> False"
  by (simp add: key_a_warm key_a_cold step_defs toString_def add.simps)

section \<open>The rows of the scenario\<close>

text \<open>
  C1, as amended. In a browser, for the calls \<open>start("/r")\<close> and \<open>start("/r/a")\<close> at the
  clock reading \<open>T > 0\<close>, \<open>end("/r/a")\<close> at \<open>T + 5\<close> and \<open>end("/r")\<close> at \<open>T + 10\<close>,
  \<open>getGui\<close> returns a waterfall with exactly one row, named \<open>r\<close>, whose only duration is
  \<open>Elapsed Time\<close> of 10 and whose only child row is named \<open>a\<close>, has the only duration
  \<open>Elapsed Time\<close> of 5 and no children. Only durations recorded under a label count
  towards an \<open>Other\<close> duration; the time covered by child rows does not.
\<close>

theorem scenario_rows:
  assumes "h_isBrowser h" and "0 < T"
  shows "\<exists>l w inst' r a.
     getGui h (scenario T) = (l, Inr (w, inst')) \<and>
     w_rows w = Some [r] \<and> get (r_data r) ''Name'' = VStr ''r'' \<and>
     durations_of r = [(''Elapsed Time'', Num 10)] \<and>
     r_details r = Some [a] \<and> get (r_data a) ''Name'' = VStr ''a'' \<and>
     durations_of a = [(''Elapsed Time'', Num 5)] \<and> r_details a = None"
  using scenario_getGui[OF assms] .

theorem scenario_rows_witness:
  "h_isBrowser browser_host \<and> (0::rat) < 1000 \<and>
   (\<exists>l w inst' r a.
     getGui browser_host (scenario 1000) = (l, Inr (w, inst')) \<and>
     w_rows w = Some [r] \<and> get (r_data r) ''Name'' = VStr ''r'' \<and>
     durations_of r = [(''Elapsed Time'', Num 10)] \<and>
     r_details r = Some [a] \<and> get (r_data a) ''Name'' = VStr ''a'' \<and>
     durations_of a = [(''Elapsed Time'', Num 5)] \<and> r_details a = None)"
proof -
  have h1: "h_isBrowser browser_host" by (simp add: browser_host_def)
  have h2: "(0::rat) < 1000" by simp
  from scenario_rows[OF h1 h2] h1 h2 show ?thesis by blast
qed

text \<open>
  The claim as stated fails at \<open>T = 1000\<close>: the row \<open>r\<close> has no \<open>Other\<close> duration of 5.
\<close>

theorem scenario_has_no_Other_bucket:
  "\<not> (\<exists>l w inst' r.
        getGui browser_host (scenario 1000) = (l, Inr (w, inst')) \<and>
        w_rows w = Some [r] \<and> (''Other'', Num 5) \<in> set (durations_of r))"
proof -
  have h1: "h_isBrowser browser_host" by (simp add: browser_host_def)
  have h2: "(0::rat) < 1000" by simp
  from scenario_getGui[OF h1 h2] obtain l w inst' r where
    "getGui browser_host (scenario 1000) = (l, Inr (w, inst'))" "w_rows w = Some [r]"
    "durations_of r = [(''Elapsed Time'', Num 10)]" by blast
  then show ?thesis by auto
qed

section \<open>The instance after getGui\<close>

text \<open>
  C7. Once \<open>getGui\<close> has returned on an instance, every later call of \<open>configure\<close>,
  \<open>start\<close>, \<open>end\<close>, \<open>event\<close>, \<open>clear\<close>, \<open>pause\<close> or \<open>resume\<close>, in any number and
  order, logs one error line and leaves the instance, its call log included, as it is;
  and \<open>getGui\<close> then returns the waterfall it built, logging nothing and changing
  nothing.
\<close>

theorem finalized_instance_is_frozen:
  assumes "reachable h inst" and "getGui h inst = (l, Inr (w, inst'))"
  shows "invoke_all ms inst' = (replicate (length ms) disabled_line, inst') \<and>
         getGui h inst' = ([], Inr (w, inst'))"
proof -
  have w: "i_waterfall inst' = Some w"
  proof (cases "i_waterfall inst")
    case None
    with getGui_first[OF assms(2)] show ?thesis by simp
  next
    case (Some w0)
    with getGui_again[OF Some, of h] assms(2) show ?thesis by simp
  qed
  have "reachable h inst'" using assms by (rule reachable_getGui)
  with w have "disabled inst'" by (simp add: reachable_disabled)
  with w show ?thesis by (simp add: invoke_all_disabled getGui_again)
qed

theorem finalized_instance_is_frozen_witness:
  "reachable browser_host (scenario 1000) \<and>
   (\<exists>l w inst'. getGui browser_host (scenario 1000) = (l, Inr (w, inst')) \<and>
      invoke_all [CallStart ''/x'' None (Ms 2000), CallPause, CallResume, CallClear,
                  CallEnd ''/x'' None (Ms 2001), CallEvent ''e'' None (Ms 2002), CallConfigure None] inst' =
        (replicate 7 disabled_line, inst') \<and>
      i_calls inst' = i_calls (scenario 1000) \<and>
      getGui browser_host inst' = ([], Inr (w, inst')))"
proof -
  have r0: "reachable browser_host (new_Waterfall None)" by (rule reachable_new)
  have step: "reachable browser_host (fold (\<lambda>m i. snd (invoke m i)) ms inst)"
    if "reachable browser_host inst" for ms inst
    using that by (induction ms arbitrary: inst) (auto intro: reachable_invoke)
  have h1: "reachable browser_host (scenario 1000)"
    unfolding scenario_def record_all_def by (rule step[OF r0])
  have b: "h_isBrowser browser_host" by (simp add: browser_host_def)
  from scenario_getGui[OF b, of 1000] obtain l w inst' where
    g: "getGui browser_host (scenario 1000) = (l, Inr (w, inst'))" by auto
  have c: "i_calls inst' = i_calls (scenario 1000)"
    using g by (auto simp: getGui_def scenario_calls disable_def Let_def split: prod.splits sum.splits)
  from finalized_instance_is_frozen[OF h1 g,
      of "[CallStart ''/x'' None (Ms 2000), CallPause, CallResume, CallClear,
           CallEnd ''/x'' None (Ms 2001), CallEvent ''e'' None (Ms 2002), CallConfigure None]"]
    g c h1
  show ?thesis by (auto simp: numeral_eq_Suc)
qed

section \<open>The filter of profiles\<close>

text \<open>
  C9. A profile is left out of the statistics (\<open>addStat\<close> returns the statistics as
  they were) exactly when there is a filter expression and \<open>eval\<close> returns \<open>false\<close> for
  it. When \<open>eval\<close> raises, the exception is logged and the profile is added.
\<close>

theorem filter_excludes_only_on_false:
  "(snd (addStat h profileFilter profile rootName st) = Inr st \<longleftrightarrow>
      (\<exists>ex. profileFilter = Some ex \<and> ex \<noteq> [] \<and>
            h_eval h (value_expression h ex (subject_of profile)) = Inr (VBool False))) \<and>
   (\<forall>ex message. profileFilter = Some ex \<and> ex \<noteq> [] \<and>
        h_eval h (value_expression h ex (subject_of profile)) = Inl message \<longrightarrow>
      addStat h profileFilter profile rootName st =
        ([expression_error ex (value_expression h ex (subject_of profile)) message],
         pushStat (profile_type h profile) (profile_startMs profile) (profile_endMs profile)
           rootName st))"
  by (cases profileFilter)
     (auto simp: addStat_def executeExpression_def pushStat_changes split: sum.splits)

theorem filter_excludes_only_on_false_witness:
  "h_eval (browser_host\<lparr>h_eval := \<lambda>s. Inl ''Unexpected end of input''\<rparr>)
      (value_expression (browser_host\<lparr>h_eval := \<lambda>s. Inl ''Unexpected end of input''\<rparr>) ''Name =''
         (subject_of (Inr (new_rdur ''Other'' (Num 5))))) = Inl ''Unexpected end of input'' \<and>
   addStat (browser_host\<lparr>h_eval := \<lambda>s. Inl ''Unexpected end of input''\<rparr>) (Some ''Name ='')
       (Inr (new_rdur ''Other'' (Num 5))) VUndefined
       \<lparr>ss_stats = [], ss_minTime = NUndef, ss_maxTime = NUndef\<rparr> =
     ([expression_error ''Name ='' ''Name ='' ''Unexpected end of input''],
      Inr \<lparr>ss_stats = [(''Other'', [\<lparr>sv_startTime = NUndef, sv_endTime = NUndef, sv_root = VUndefined\<rparr>])],
           ss_minTime = NUndef, ss_maxTime = NUndef\<rparr>)"
proof -
  let ?h = "browser_host\<lparr>h_eval := \<lambda>s. Inl ''Unexpected end of input''\<rparr>"
  let ?p = "Inr (new_rdur ''Other'' (Num 5)) :: row + rdur"
  have e: "h_eval ?h (value_expression ?h ''Name ='' (subject_of ?p)) = Inl ''Unexpected end of input''"
    by simp
  have f: "fold (\<lambda>v e. e) xs e0 = e0" for xs :: "string list" and e0 :: string
    by (induction xs) auto
  have v: "value_expression ?h ''Name ='' (subject_of ?p) = ''Name =''"
    by (simp only: value_expression_def Let_def) (simp add: browser_host_def f)
  from filter_excludes_only_on_false[of ?h "Some ''Name =''" ?p VUndefined
      "\<lparr>ss_stats = [], ss_minTime = NUndef, ss_maxTime = NUndef\<rparr>"]
  have "addStat ?h (Some ''Name ='') ?p VUndefined
          \<lparr>ss_stats = [], ss_minTime = NUndef, ss_maxTime = NUndef\<rparr> =
        ([expression_error ''Name ='' (value_expression ?h ''Name ='' (subject_of ?p))
            ''Unexpected end of input''],
         pushStat (profile_type ?h ?p) (profile_startMs ?p) (profile_endMs ?p) VUndefined
           \<lparr>ss_stats = [], ss_minTime = NUndef, ss_maxTime = NUndef\<rparr>)"
    using e by blast
  then have "addStat ?h (Some ''Name ='') ?p VUndefined
          \<lparr>ss_stats = [], ss_minTime = NUndef, ss_maxTime = NUndef\<rparr> =
        ([expression_error ''Name ='' ''Name ='' ''Unexpected end of input''],
         pushStat (profile_type ?h ?p) (profile_startMs ?p) (profile_endMs ?p) VUndefined
           \<lparr>ss_stats = [], ss_minTime = NUndef, ss_maxTime = NUndef\<rparr>)"
    by (simp only: v)
  then show ?thesis
    using e
    by (simp add: pushStat_def profile_type_def profile_startMs_def profile_endMs_def
          new_rdur_def to_string_def js_or_def Object_prototype_def)
qed

section \<open>The statistic of a type\<close>



section \<open>Canonical keys\<close>



end
